theory Spec2Isabelle
  imports Main "HOL-Library.Sublist" "HOL-Library.Word"
begin

section \<open>JavaScript values\<close>

text \<open>
  The client and the two adapters handle values typed \<open>any\<close>: the value axios rejects
  with, the body of a response, the fields of the request object of the callback
  middleware. They are modelled by one datatype of JavaScript data: primitives, arrays and
  objects whose properties hold data again. No value of the model is callable; the only
  functions a property read can find are the built-in methods of the prototypes. An object
  carries the class it was constructed with, which is what \<open>instanceof\<close> inspects, and
  its own properties.

  A number is either \<open>NaN\<close> or an integer of at most 53 bits and a sign, read with
  \<open>sint\<close>. Every such integer is a JavaScript number, and its string form is its decimal
  numeral. The other numbers (fractions, larger magnitudes, the infinities, negative zero)
  are not values of the model.
\<close>

datatype number = Integer "54 word" | NaN

datatype jsclass = ObjectClass | ErrorClass | TypeErrorClass | LimitlyErrorClass

datatype jsval =
    JUndefined
  | JNull
  | JBool bool
  | JNum number
  | JStr string
  | JArr "jsval list"
  | JObj jsclass "(string \<times> jsval) list"

text \<open>A computation either completes with a value (\<open>Inr\<close>) or throws one (\<open>Inl\<close>).
  A promise either fulfils (\<open>Inr\<close>) or rejects (\<open>Inl\<close>).\<close>

type_synonym 'a result = "jsval + 'a"

text \<open>ToBoolean, as used by \<open>!x\<close>, \<open>x || y\<close> and \<open>if (x)\<close>.\<close>

fun truthy_number :: "number \<Rightarrow> bool" where
  "truthy_number (Integer i) = (i \<noteq> 0)"
| "truthy_number NaN = False"

fun truthy :: "jsval \<Rightarrow> bool" where
  "truthy JUndefined = False"
| "truthy JNull = False"
| "truthy (JBool b) = b"
| "truthy (JNum n) = truthy_number n"
| "truthy (JStr s) = (s \<noteq> [])"
| "truthy (JArr xs) = True"
| "truthy (JObj c ps) = True"

fun nullish :: "jsval \<Rightarrow> bool" where
  "nullish JUndefined = True"
| "nullish JNull = True"
| "nullish v = False"

definition new_TypeError :: "string \<Rightarrow> jsval" where
  "new_TypeError msg = JObj TypeErrorClass [(''message'', JStr msg)]"

definition new_Error :: "string \<Rightarrow> jsval" where
  "new_Error msg = JObj ErrorClass [(''message'', JStr msg)]"

subsection \<open>Property reads\<close>

text \<open>
  The names of the properties that the program, and a caller inspecting a LimitlyError,
  read with \<open>v.name\<close>. None of them is a member of a built-in prototype, except
  \<open>message\<close>, which \<open>Error.prototype\<close> holds as the empty string. So a read finds the
  own property if there is one, the empty string for \<open>message\<close> on an error object
  without its own, and \<open>undefined\<close> otherwise, on primitives and arrays too.
\<close>

datatype key =
    K_response | K_request | K_message | K_data | K_error | K_status | K_statusText
  | K_success | K_details | K_statusCode

fun key_name :: "key \<Rightarrow> string" where
  "key_name K_response = ''response''"
| "key_name K_request = ''request''"
| "key_name K_message = ''message''"
| "key_name K_data = ''data''"
| "key_name K_error = ''error''"
| "key_name K_status = ''status''"
| "key_name K_statusText = ''statusText''"
| "key_name K_success = ''success''"
| "key_name K_details = ''details''"
| "key_name K_statusCode = ''statusCode''"

text \<open>\<open>v?.k\<close>: \<open>undefined\<close> on a nullish receiver, never throws.\<close>

fun opt_prop :: "jsval \<Rightarrow> key \<Rightarrow> jsval" where
  "opt_prop (JObj c ps) k =
     (case map_of ps (key_name k) of
        Some v \<Rightarrow> v
      | None \<Rightarrow> if c \<noteq> ObjectClass \<and> k = K_message then JStr [] else JUndefined)"
| "opt_prop v k = JUndefined"

text \<open>\<open>v.k\<close>: reading a property of \<open>undefined\<close> or \<open>null\<close> throws a TypeError.\<close>

definition get_prop :: "jsval \<Rightarrow> key \<Rightarrow> jsval result" where
  "get_prop v k =
     (if v = JUndefined then
        Inl (new_TypeError
               (''Cannot read properties of undefined (reading '' @ key_name k @ '')''))
      else if v = JNull then
        Inl (new_TypeError (''Cannot read properties of null (reading '' @ key_name k @ '')''))
      else Inr (opt_prop v k))"

subsection \<open>Conversion to string\<close>

function digits :: "nat \<Rightarrow> string" where
  "digits n = (if n < 10 then [''0123456789'' ! n] else digits (n div 10) @ [''0123456789'' ! (n mod 10)])"
  by pat_completeness auto
termination
  by (relation "measure id") auto

declare digits.simps [simp del]

definition show_int :: "int \<Rightarrow> string" where
  "show_int i = (if i < 0 then CHR ''-'' # digits (nat (- i)) else digits (nat i))"

fun number_string :: "number \<Rightarrow> string" where
  "number_string (Integer i) = show_int (sint i)"
| "number_string NaN = ''NaN''"

text \<open>\<open>Array.prototype.join\<close> with a comma, over the string forms of the elements, the
  first failure among them being the outcome.\<close>

fun join_comma :: "string result list \<Rightarrow> string result" where
  "join_comma [] = Inr []"
| "join_comma [r] = r"
| "join_comma (r # t # rs) =
     (case r of
        Inl e \<Rightarrow> Inl e
      | Inr s \<Rightarrow> (case join_comma (t # rs) of Inl e \<Rightarrow> Inl e | Inr u \<Rightarrow> Inr (s @ CHR '','' # u)))"

definition class_name :: "jsclass \<Rightarrow> string" where
  "class_name c = (if c = TypeErrorClass then ''TypeError'' else ''Error'')"

text \<open>
  \<open>Error.prototype.toString\<close>, given the own properties with the string form of each
  (\<open>None\<close> for a property that holds \<open>undefined\<close>): the name, own or of the prototype of
  the class, and the message, joined by a colon unless one of them is empty.
\<close>

definition error_string :: "jsclass \<Rightarrow> (string \<times> string result option) list \<Rightarrow> string result" where
  "error_string c ps =
     (case (case map_of ps ''name'' of
              None \<Rightarrow> Inr (class_name c)
            | Some None \<Rightarrow> Inr ''Error''
            | Some (Some r) \<Rightarrow> r) of
        Inl e \<Rightarrow> Inl e
      | Inr name \<Rightarrow>
          (case (case map_of ps ''message'' of
                   None \<Rightarrow> Inr []
                 | Some None \<Rightarrow> Inr []
                 | Some (Some r) \<Rightarrow> r) of
             Inl e \<Rightarrow> Inl e
           | Inr msg \<Rightarrow>
               Inr (if name = [] then msg else if msg = [] then name else name @ '': '' @ msg)))"

text \<open>
  ToString, as applied by a template literal and by the \<open>Error\<close> constructor to its
  message. An object is converted by its \<open>toString\<close> method: that of the prototype, unless
  the object has an own property of that name, which holds data and cannot be called; then
  \<open>valueOf\<close> gives no primitive either and the conversion throws a TypeError.
\<close>

primrec to_string :: "jsval \<Rightarrow> string result" where
  "to_string JUndefined = Inr ''undefined''"
| "to_string JNull = Inr ''null''"
| "to_string (JBool b) = Inr (if b then ''true'' else ''false'')"
| "to_string (JNum n) = Inr (number_string n)"
| "to_string (JStr s) = Inr s"
| "to_string (JArr xs) =
     join_comma (map (\<lambda>x. if x = JUndefined \<or> x = JNull then Inr [] else to_string x) xs)"
| "to_string (JObj c ps) =
     (if map_of ps ''toString'' \<noteq> None
      then Inl (new_TypeError ''Cannot convert object to primitive value'')
      else if c = ObjectClass then Inr ''[object Object]''
      else error_string c
             (map (map_prod id (\<lambda>v. if v = JUndefined then None else Some (to_string v))) ps))"

subsection \<open>String.prototype.replace with a string pattern\<close>

text \<open>\<open>s.replace(pat, rep)\<close> with a string pattern replaces the first occurrence of
  \<open>pat\<close> in \<open>s\<close>, wherever it is, and leaves \<open>s\<close> alone when there is none.\<close>

fun replace_first :: "string \<Rightarrow> string \<Rightarrow> string \<Rightarrow> string" where
  "replace_first pat rep [] = (if pat = [] then rep else [])"
| "replace_first pat rep (c # cs) =
     (if prefix pat (c # cs) then rep @ drop (length pat) (c # cs)
      else c # replace_first pat rep cs)"

section \<open>Types\<close>

record LimitlyConfig =
  config_apiKey :: string
  config_baseUrl :: "string option"
  config_timeout :: "number option"

record RequestOptions =
  ro_timeout :: "number option"
  ro_headers :: "(string \<rightharpoonup> string) option"
  ro_cache :: "bool option"
  ro_revalidate :: "number option"

text \<open>The fields of \<open>AxiosRequestConfig\<close> that the client sets. An absent \<open>data\<close> is
  \<open>JUndefined\<close>.\<close>

record AxiosRequestConfig =
  ax_method :: "string option"
  ax_data :: jsval
  ax_headers :: "(string \<rightharpoonup> string) option"
  ax_timeout :: "number option"

text \<open>A LimitlyError with a given message: the message, the parameter properties
  \<open>statusCode\<close> and \<open>response\<close>, and the \<open>name\<close> the constructor sets.\<close>

definition LimitlyError_of :: "string \<Rightarrow> jsval \<Rightarrow> jsval \<Rightarrow> jsval" where
  "LimitlyError_of message statusCode response =
     JObj LimitlyErrorClass
       [(''message'', JStr message),
        (''statusCode'', statusCode),
        (''response'', response),
        (''name'', JStr ''LimitlyError'')]"

text \<open>\<open>new LimitlyError(message, statusCode, response)\<close>: \<open>super(message)\<close> converts the
  message to a string, which may throw.\<close>

definition new_LimitlyError :: "jsval \<Rightarrow> jsval \<Rightarrow> jsval \<Rightarrow> jsval result" where
  "new_LimitlyError message statusCode response =
     (case to_string message of
        Inl e \<Rightarrow> Inl e
      | Inr m \<Rightarrow> Inr (LimitlyError_of m statusCode response))"

text \<open>\<open>throw new C(...)\<close> throws the object constructed, or what the constructor threw.\<close>

definition throw_new :: "jsval result \<Rightarrow> jsval" where
  "throw_new r = (case r of Inl e \<Rightarrow> e | Inr object \<Rightarrow> object)"

fun instanceof_LimitlyError :: "jsval \<Rightarrow> bool" where
  "instanceof_LimitlyError (JObj c ps) = (c = LimitlyErrorClass)"
| "instanceof_LimitlyError v = False"

section \<open>Observable effects\<close>

text \<open>
  Every function of the model returns, beside its result, the effects it had on the outside
  world, in order: the outbound call handed to axios, the invocations of the caller's
  hooks, of the continuation and of the wrapped handler, the response written to the host's
  \<open>res\<close> object (\<open>res.status(n).json(body)\<close>), and what was logged.
\<close>

datatype event =
    AxiosCall string AxiosRequestConfig
  | OnValidationError jsval
  | OnRateLimitExceeded
  | ResStatusJson int jsval
  | NextCall
  | HandlerCall
  | ConsoleError jsval

section \<open>HttpClient\<close>

record HttpClient =
  hc_apiKey :: string
  hc_baseUrl :: string
  hc_timeout :: number

text \<open>\<open>x || d\<close> on an optional string and on an optional number: the default is taken when
  \<open>x\<close> is absent and also when it is falsy: the empty string, respectively zero or
  \<open>NaN\<close>.\<close>

definition or_string :: "string option \<Rightarrow> string \<Rightarrow> string" where
  "or_string x d = (case x of None \<Rightarrow> d | Some s \<Rightarrow> if s \<noteq> [] then s else d)"

definition or_number :: "number option \<Rightarrow> number \<Rightarrow> number" where
  "or_number x d = (case x of None \<Rightarrow> d | Some n \<Rightarrow> if truthy_number n then n else d)"

definition HttpClient_new :: "LimitlyConfig \<Rightarrow> HttpClient" where
  "HttpClient_new config =
     \<lparr> hc_apiKey = config_apiKey config,
       hc_baseUrl = or_string (config_baseUrl config)
                      ''https://xfkyofkqbukqtxcuapvf.supabase.co/functions/v1'',
       hc_timeout = or_number (config_timeout config) (Integer 30000) \<rparr>"

text \<open>Object spread \<open>{...acc, ...src}\<close> over header objects: the later value wins on a
  key both have; spreading \<open>undefined\<close> adds nothing.\<close>

definition spread :: "(string \<rightharpoonup> string) \<Rightarrow> (string \<rightharpoonup> string) option \<Rightarrow> (string \<rightharpoonup> string)" where
  "spread acc src = (case src of None \<Rightarrow> acc | Some m \<Rightarrow> acc ++ m)"

text \<open>The transport: what \<open>await axios(url, requestConfig)\<close> does, either the response
  object it resolves with or the value it rejects with.\<close>

type_synonym transport = "string \<Rightarrow> AxiosRequestConfig \<Rightarrow> jsval result"

text \<open>The local constant \<open>requestConfig\<close> of \<open>makeRequest\<close>.\<close>

definition requestConfig :: "HttpClient \<Rightarrow> AxiosRequestConfig \<Rightarrow> RequestOptions option
    \<Rightarrow> AxiosRequestConfig" where
  "requestConfig this options requestOptions =
     options
       \<lparr> ax_headers := Some
           (spread
             (spread
               [''Authorization'' \<mapsto> ''Bearer '' @ hc_apiKey this,
                ''Content-Type'' \<mapsto> ''application/json'']
               (ax_headers options))
             (case requestOptions of None \<Rightarrow> None | Some ro \<Rightarrow> ro_headers ro)),
         ax_timeout := Some
           (or_number (case requestOptions of None \<Rightarrow> None | Some ro \<Rightarrow> ro_timeout ro)
              (hc_timeout this)) \<rparr>"

text \<open>The template literal \<open>`HTTP ${status}: ${statusText}`\<close>: the two values are converted
  in turn, and either conversion may throw.\<close>

definition http_message :: "jsval \<Rightarrow> jsval \<Rightarrow> jsval result" where
  "http_message status statusText =
     (case to_string status of
        Inl e \<Rightarrow> Inl e
      | Inr a \<Rightarrow>
          (case to_string statusText of
             Inl e \<Rightarrow> Inl e
           | Inr b \<Rightarrow> Inr (JStr (''HTTP '' @ a @ '': '' @ b))))"

text \<open>The \<open>catch\<close> block of \<open>makeRequest\<close>. Every path through it throws; the function
  gives the value thrown. \<open>error.response\<close> is read with \<open>get_prop\<close>, which throws on a
  nullish \<open>error\<close>, and so is \<open>data.error\<close>; where the receiver is known not to be
  nullish the read cannot throw and is written \<open>opt_prop\<close>.\<close>

definition makeRequest_catch :: "jsval \<Rightarrow> jsval" where
  "makeRequest_catch error =
     (if instanceof_LimitlyError error then error
      else case get_prop error K_response of
        Inl e \<Rightarrow> e
      | Inr response \<Rightarrow>
          if truthy response then
            (let data = opt_prop response K_data in
             case get_prop data K_error of
               Inl e \<Rightarrow> e
             | Inr data_error \<Rightarrow>
                 (case (if truthy data_error then Inr data_error
                        else http_message (opt_prop response K_status)
                               (opt_prop response K_statusText)) of
                    Inl e \<Rightarrow> e
                  | Inr message \<Rightarrow>
                      throw_new (new_LimitlyError message (opt_prop response K_status) data)))
          else if truthy (opt_prop error K_request) then
            (case to_string (opt_prop error K_message) of
               Inl e \<Rightarrow> e
             | Inr m \<Rightarrow>
                 throw_new (new_LimitlyError (JStr (''Network error: '' @ m)) (JNum (Integer 0))
                   (JObj ObjectClass [(''originalError'', opt_prop error K_message)])))
          else
            throw_new (new_LimitlyError (JStr ''Unknown error occurred'') (JNum (Integer 0))
              JUndefined))"

definition makeRequest :: "transport \<Rightarrow> HttpClient \<Rightarrow> string \<Rightarrow> AxiosRequestConfig
    \<Rightarrow> RequestOptions option \<Rightarrow> event list \<times> jsval result" where
  "makeRequest axios this endpoint options requestOptions =
     (let url = hc_baseUrl this @ endpoint;
          config = requestConfig this options requestOptions
      in ([AxiosCall url config],
          case (case axios url config of
                  Inl e \<Rightarrow> Inl e
                | Inr response \<Rightarrow> get_prop response K_data) of
            Inr data \<Rightarrow> Inr data
          | Inl error \<Rightarrow> Inl (makeRequest_catch error)))"

definition empty_config :: AxiosRequestConfig where
  "empty_config = \<lparr> ax_method = None, ax_data = JUndefined, ax_headers = None, ax_timeout = None \<rparr>"

definition client_get :: "transport \<Rightarrow> HttpClient \<Rightarrow> string \<Rightarrow> RequestOptions option
    \<Rightarrow> event list \<times> jsval result" where
  "client_get axios this endpoint requestOptions =
     makeRequest axios this endpoint (empty_config \<lparr> ax_method := Some ''GET'' \<rparr>) requestOptions"

definition client_post :: "transport \<Rightarrow> HttpClient \<Rightarrow> string \<Rightarrow> jsval \<Rightarrow> RequestOptions option
    \<Rightarrow> event list \<times> jsval result" where
  "client_post axios this endpoint body requestOptions =
     makeRequest axios this endpoint
       (empty_config \<lparr> ax_method := Some ''POST'', ax_data := body \<rparr>) requestOptions"

definition client_put :: "transport \<Rightarrow> HttpClient \<Rightarrow> string \<Rightarrow> jsval \<Rightarrow> RequestOptions option
    \<Rightarrow> event list \<times> jsval result" where
  "client_put axios this endpoint body requestOptions =
     makeRequest axios this endpoint
       (empty_config \<lparr> ax_method := Some ''PUT'', ax_data := body \<rparr>) requestOptions"

definition client_delete :: "transport \<Rightarrow> HttpClient \<Rightarrow> string \<Rightarrow> RequestOptions option
    \<Rightarrow> event list \<times> jsval result" where
  "client_delete axios this endpoint requestOptions =
     makeRequest axios this endpoint (empty_config \<lparr> ax_method := Some ''DELETE'' \<rparr>) requestOptions"

section \<open>ValidationModule\<close>

definition validateRequest :: "transport \<Rightarrow> HttpClient \<Rightarrow> jsval \<Rightarrow> RequestOptions option
    \<Rightarrow> event list \<times> jsval result" where
  "validateRequest axios client data options = client_post axios client ''/validate'' data options"

definition validate :: "transport \<Rightarrow> HttpClient \<Rightarrow> jsval \<Rightarrow> jsval \<Rightarrow> jsval
    \<Rightarrow> RequestOptions option \<Rightarrow> event list \<times> jsval result" where
  "validate axios client apiKey endpoint method options =
     validateRequest axios client
       (JObj ObjectClass [(''api_key'', apiKey), (''endpoint'', endpoint), (''method'', method)])
       options"

section \<open>Sequencing effects\<close>

text \<open>A computation with effects gives the events it caused and how it completed.
  \<open>then_do\<close> runs a second computation after a first one that completed normally;
  \<open>try_catch\<close> runs the handler on what the first one threw.\<close>

type_synonym 'a effect = "event list \<times> 'a result"

definition lift :: "'a result \<Rightarrow> 'a effect" where
  "lift r = ([], r)"

definition then_do :: "'a effect \<Rightarrow> ('a \<Rightarrow> 'b effect) \<Rightarrow> 'b effect" where
  "then_do m f =
     (case snd m of
        Inl e \<Rightarrow> (fst m, Inl e)
      | Inr x \<Rightarrow> (fst m @ fst (f x), snd (f x)))"

definition try_catch :: "'a effect \<Rightarrow> (jsval \<Rightarrow> 'a effect) \<Rightarrow> 'a effect" where
  "try_catch m h =
     (case snd m of
        Inl e \<Rightarrow> (fst m @ fst (h e), snd (h e))
      | Inr x \<Rightarrow> (fst m, Inr x))"

section \<open>Credential extraction\<close>

text \<open>\<open>v?.replace('Bearer ', '')\<close>: \<open>undefined\<close> on a nullish value, the replacement on a
  string, and a TypeError on any other value: none has a \<open>replace\<close> that can be
  called.\<close>

fun opt_replace_Bearer :: "jsval \<Rightarrow> jsval result" where
  "opt_replace_Bearer JUndefined = Inr JUndefined"
| "opt_replace_Bearer JNull = Inr JUndefined"
| "opt_replace_Bearer (JStr s) = Inr (JStr (replace_first ''Bearer '' [] s))"
| "opt_replace_Bearer v = Inl (new_TypeError ''replace is not a function'')"

text \<open>\<open>a || b\<close> where both operands may throw: \<open>b\<close> is evaluated only if \<open>a\<close> is falsy.\<close>

definition or_else :: "jsval result \<Rightarrow> jsval result \<Rightarrow> jsval result" where
  "or_else a b = (case a of Inl e \<Rightarrow> Inl e | Inr v \<Rightarrow> if truthy v then Inr v else b)"

section \<open>Callback middleware\<close>

text \<open>
  The request object of the middleware is typed \<open>any\<close>; the model keeps the four
  properties that are read. \<open>req.headers\<close> is a plain object that maps header names to
  data, as a Node request has it, or is absent (\<open>undefined\<close> or \<open>null\<close>).
\<close>

record MwRequest =
  req_headers :: "(string \<rightharpoonup> jsval) option"
  req_url :: jsval
  req_path :: jsval
  req_method :: jsval

text \<open>
  \<open>req.headers?.[name]\<close> with a name the caller chooses. The read finds the own property
  of that name; if there is none it finds what \<open>Object.prototype\<close> holds under the name,
  a built-in method (or, for \<open>__proto__\<close>, the prototype itself); else \<open>undefined\<close>.
\<close>

definition Object_prototype_members :: "string list" where
  "Object_prototype_members =
     [''constructor'', ''__defineGetter__'', ''__defineSetter__'', ''hasOwnProperty'',
      ''__lookupGetter__'', ''__lookupSetter__'', ''isPrototypeOf'', ''propertyIsEnumerable'',
      ''toString'', ''valueOf'', ''__proto__'', ''toLocaleString'']"

datatype member = Data jsval | Builtin

definition headers_member :: "(string \<rightharpoonup> jsval) option \<Rightarrow> string \<Rightarrow> member" where
  "headers_member headers name =
     (case headers of
        None \<Rightarrow> Data JUndefined
      | Some own \<Rightarrow>
          (case own name of
             Some v \<Rightarrow> Data v
           | None \<Rightarrow> if name \<in> set Object_prototype_members then Builtin else Data JUndefined))"

text \<open>\<open>req.headers?.[name]?.replace('Bearer ', '')\<close>: a built-in member is not nullish and
  has no \<open>replace\<close>.\<close>

definition header_replace_Bearer :: "(string \<rightharpoonup> jsval) option \<Rightarrow> string \<Rightarrow> jsval result" where
  "header_replace_Bearer headers name =
     (case headers_member headers name of
        Data v \<Rightarrow> opt_replace_Bearer v
      | Builtin \<Rightarrow> Inl (new_TypeError ''replace is not a function''))"

text \<open>The hooks are functions of the caller. Each is modelled by how it completes when
  invoked: normally (\<open>Inr ()\<close>) or by throwing (\<open>Inl\<close>).\<close>

record MiddlewareOptions =
  mo_apiKeyHeader :: "string option"
  mo_onRateLimitExceeded :: "(MwRequest \<Rightarrow> unit result) option"
  mo_onValidationError :: "(MwRequest \<Rightarrow> jsval \<Rightarrow> unit result) option"

text \<open>The constant \<open>apiKey\<close> of the middleware.\<close>

definition middleware_apiKey :: "string \<Rightarrow> MwRequest \<Rightarrow> jsval result" where
  "middleware_apiKey apiKeyHeader req =
     or_else (header_replace_Bearer (req_headers req) apiKeyHeader)
             (header_replace_Bearer (req_headers req) ''authorization'')"

text \<open>\<open>options?.apiKeyHeader || 'authorization'\<close>, \<open>options?.onValidationError\<close> and
  \<open>options?.onRateLimitExceeded\<close>\<close>

definition middleware_apiKeyHeader :: "MiddlewareOptions option \<Rightarrow> string" where
  "middleware_apiKeyHeader options =
     or_string (case options of None \<Rightarrow> None | Some opts \<Rightarrow> mo_apiKeyHeader opts)
       ''authorization''"

definition onValidationError_of :: "MiddlewareOptions option
    \<Rightarrow> (MwRequest \<Rightarrow> jsval \<Rightarrow> unit result) option" where
  "onValidationError_of options =
     (case options of None \<Rightarrow> None | Some opts \<Rightarrow> mo_onValidationError opts)"

definition onRateLimitExceeded_of :: "MiddlewareOptions option
    \<Rightarrow> (MwRequest \<Rightarrow> unit result) option" where
  "onRateLimitExceeded_of options =
     (case options of None \<Rightarrow> None | Some opts \<Rightarrow> mo_onRateLimitExceeded opts)"

text \<open>\<open>if (options?.onValidationError) options.onValidationError(req, res, error)\<close>\<close>

definition call_onValidationError :: "MiddlewareOptions option \<Rightarrow> MwRequest \<Rightarrow> jsval
    \<Rightarrow> unit effect" where
  "call_onValidationError options req error =
     (case onValidationError_of options of
        None \<Rightarrow> ([], Inr ())
      | Some hook \<Rightarrow> ([OnValidationError error], hook req error))"

text \<open>\<open>if (options?.onRateLimitExceeded) options.onRateLimitExceeded(req, res)\<close>\<close>

definition call_onRateLimitExceeded :: "MiddlewareOptions option \<Rightarrow> MwRequest \<Rightarrow> unit effect" where
  "call_onRateLimitExceeded options req =
     (case onRateLimitExceeded_of options of
        None \<Rightarrow> ([], Inr ())
      | Some hook \<Rightarrow> ([OnRateLimitExceeded], hook req))"

text \<open>\<open>req.url || req.path\<close>, the endpoint the middleware has validated.\<close>

definition middleware_endpoint :: "MwRequest \<Rightarrow> jsval" where
  "middleware_endpoint req = (if truthy (req_url req) then req_url req else req_path req)"

text \<open>\<open>return res.status(n).json(body)\<close>\<close>

definition res_status_json :: "int \<Rightarrow> jsval \<Rightarrow> unit effect" where
  "res_status_json n body = ([ResStatusJson n body], Inr ())"

text \<open>The \<open>try\<close> block of the middleware. \<open>next\<close> is the continuation, if one was passed,
  given by how it completes.\<close>

definition middleware_try :: "transport \<Rightarrow> HttpClient \<Rightarrow> MiddlewareOptions option \<Rightarrow> string
    \<Rightarrow> MwRequest \<Rightarrow> unit result option \<Rightarrow> unit effect" where
  "middleware_try axios client options apiKeyHeader req next =
     then_do (lift (middleware_apiKey apiKeyHeader req)) (\<lambda>apiKey.
       if \<not> truthy apiKey then
         then_do (call_onValidationError options req (new_Error ''API Key required'')) (\<lambda>_.
           res_status_json 401 (JObj ObjectClass [(''error'', JStr ''API Key required'')]))
       else
         then_do (validate axios client apiKey (middleware_endpoint req) (req_method req) None)
           (\<lambda>result.
         then_do (lift (get_prop result K_success)) (\<lambda>success.
           if \<not> truthy success then
             then_do (call_onRateLimitExceeded options req) (\<lambda>_.
               res_status_json 429
                 (JObj ObjectClass
                    [(''error'', JStr ''Rate limit exceeded''),
                     (''details'', opt_prop result K_details)]))
           else
             (case next of
                None \<Rightarrow> ([], Inr ())
              | Some completes \<Rightarrow> ([NextCall], completes)))))"

definition createMiddleware :: "transport \<Rightarrow> HttpClient \<Rightarrow> MiddlewareOptions option
    \<Rightarrow> MwRequest \<Rightarrow> unit result option \<Rightarrow> unit effect" where
  "createMiddleware axios client options req next =
     (let apiKeyHeader = middleware_apiKeyHeader options
      in try_catch (middleware_try axios client options apiKeyHeader req next) (\<lambda>error.
           then_do (call_onValidationError options req error) (\<lambda>_.
             res_status_json 500 (JObj ObjectClass [(''error'', JStr ''Validation error'')]))))"

section \<open>Handler-wrapping adapter\<close>

text \<open>A fetch \<open>Request\<close>. \<open>request_headers\<close> is \<open>request.headers.get\<close>: it gives the value
  of a header, \<open>null\<close> (\<open>None\<close>) for a header that is not there, and throws a TypeError
  for a name that is not a header name.\<close>

record Request =
  request_url :: string
  request_method :: string
  request_headers :: "string \<Rightarrow> string option result"

record Response =
  response_status :: int
  response_body :: jsval

definition Response_json :: "jsval \<Rightarrow> int \<Rightarrow> Response" where
  "Response_json body status = \<lparr> response_status = status, response_body = body \<rparr>"

text \<open>
  \<open>new URL(url).pathname\<close> is the work of the platform's URL parser, which the adapter
  takes as it is: a function from the string to the path of the URL, or to the TypeError
  the constructor throws for a string that is not a URL.
\<close>

type_synonym url_parser = "string \<Rightarrow> string result"

text \<open>The override producer and the wrapped handler are functions of the caller. The
  producer either returns a response or throws. The handler either throws before it
  returns, or returns a promise, which fulfils with a response or rejects.\<close>

record RateLimitOptions =
  rl_apiKeyHeader :: "string option"
  rl_onRateLimitExceeded :: "(Request \<Rightarrow> Response result) option"

type_synonym handler = "Request \<Rightarrow> jsval list \<Rightarrow> (Response result) result"

text \<open>\<open>options?.apiKeyHeader || 'authorization'\<close> and \<open>options?.onRateLimitExceeded\<close>\<close>

definition withRateLimit_apiKeyHeader :: "RateLimitOptions option \<Rightarrow> string" where
  "withRateLimit_apiKeyHeader options =
     or_string (case options of None \<Rightarrow> None | Some opts \<Rightarrow> rl_apiKeyHeader opts)
       ''authorization''"

definition producer_of :: "RateLimitOptions option \<Rightarrow> (Request \<Rightarrow> Response result) option" where
  "producer_of options =
     (case options of None \<Rightarrow> None | Some opts \<Rightarrow> rl_onRateLimitExceeded opts)"

text \<open>\<open>request.headers.get(name)?.replace('Bearer ', '')\<close>\<close>

definition get_replace_Bearer :: "Request \<Rightarrow> string \<Rightarrow> jsval result" where
  "get_replace_Bearer request name =
     (case request_headers request name of
        Inl e \<Rightarrow> Inl e
      | Inr None \<Rightarrow> Inr JUndefined
      | Inr (Some s) \<Rightarrow> Inr (JStr (replace_first ''Bearer '' [] s)))"

text \<open>The constant \<open>apiKey\<close> of the wrapped handler.\<close>

definition withRateLimit_apiKey :: "string \<Rightarrow> Request \<Rightarrow> jsval result" where
  "withRateLimit_apiKey apiKeyHeader request =
     or_else (get_replace_Bearer request apiKeyHeader)
             (get_replace_Bearer request ''authorization'')"

text \<open>The \<open>try\<close> block of the wrapped handler. It completes with what the \<open>return\<close>
  statement was given: a response, or the promise of the handler, which is returned without
  being awaited.\<close>

definition withRateLimit_try :: "url_parser \<Rightarrow> transport \<Rightarrow> HttpClient \<Rightarrow> handler
    \<Rightarrow> RateLimitOptions option \<Rightarrow> string \<Rightarrow> Request \<Rightarrow> jsval list \<Rightarrow> (Response result) effect" where
  "withRateLimit_try URL_pathname axios client handler options apiKeyHeader request args =
     then_do (lift (withRateLimit_apiKey apiKeyHeader request)) (\<lambda>apiKey.
       if \<not> truthy apiKey then
         ([], Inr (Inr (Response_json (JObj ObjectClass [(''error'', JStr ''API Key required'')]) 401)))
       else
         then_do (lift (URL_pathname (request_url request))) (\<lambda>pathname.
         then_do (validate axios client apiKey (JStr pathname) (JStr (request_method request)) None)
           (\<lambda>result.
         then_do (lift (get_prop result K_success)) (\<lambda>success.
           if \<not> truthy success then
             (case producer_of options of
                Some producer \<Rightarrow>
                  then_do ([OnRateLimitExceeded], producer request) (\<lambda>response.
                    ([], Inr (Inr response)))
              | None \<Rightarrow>
                  ([], Inr (Inr (Response_json
                     (JObj ObjectClass
                        [(''error'', JStr ''Rate limit exceeded''),
                         (''details'', opt_prop result K_details)])
                     429))))
           else
             ([HandlerCall], handler request args)))))"

text \<open>The wrapped handler is an async function: what it returns is a promise that settles
  as the value returned from the body does, and rejects with what the body throws.\<close>

definition withRateLimit :: "url_parser \<Rightarrow> transport \<Rightarrow> HttpClient \<Rightarrow> handler
    \<Rightarrow> RateLimitOptions option \<Rightarrow> Request \<Rightarrow> jsval list \<Rightarrow> event list \<times> Response result" where
  "withRateLimit URL_pathname axios client handler options request args =
     (let apiKeyHeader = withRateLimit_apiKeyHeader options;
          body = try_catch
                   (withRateLimit_try URL_pathname axios client handler options apiKeyHeader
                      request args)
                   (\<lambda>error.
                      ([ConsoleError error],
                       Inr (Inr (Response_json
                                  (JObj ObjectClass [(''error'', JStr ''Validation error'')])
                                  500))))
      in (fst body, case snd body of Inl e \<Rightarrow> Inl e | Inr promise \<Rightarrow> promise))"

section \<open>Reading the effects\<close>

text \<open>The outbound calls among the events, the \<open>endpoint\<close> property of the body each of
  them carries to the remote API, and the timeout each was given.\<close>

fun axios_calls :: "event list \<Rightarrow> (string \<times> AxiosRequestConfig) list" where
  "axios_calls [] = []"
| "axios_calls (AxiosCall url config # es) = (url, config) # axios_calls es"
| "axios_calls (e # es) = axios_calls es"

fun own_property :: "jsval \<Rightarrow> string \<Rightarrow> jsval option" where
  "own_property (JObj c ps) name = map_of ps name"
| "own_property v name = None"

definition sent_endpoints :: "event list \<Rightarrow> jsval option list" where
  "sent_endpoints es = map (\<lambda>call. own_property (ax_data (snd call)) ''endpoint'') (axios_calls es)"

definition sent_timeouts :: "event list \<Rightarrow> number option list" where
  "sent_timeouts es = map (\<lambda>call. ax_timeout (snd call)) (axios_calls es)"

section \<open>Mocks and examples\<close>

text \<open>A transport that rejects with a given value, and one that resolves with a given
  response, whatever it is asked (the test suite's \<open>mockRejectedValueOnce\<close> and
  \<open>mockResolvedValueOnce\<close>).\<close>

definition mockRejectedValue :: "jsval \<Rightarrow> transport" where
  "mockRejectedValue error url config = Inl error"

definition mockResolvedValue :: "jsval \<Rightarrow> transport" where
  "mockResolvedValue response url config = Inr response"

text \<open>The client the test suite constructs.\<close>

definition test_client :: HttpClient where
  "test_client = HttpClient_new
     \<lparr> config_apiKey = ''test_api_key'', config_baseUrl = None, config_timeout = None \<rparr>"

text \<open>Responses of the validate endpoint as the test suite mocks them: one that allows the
  request and one that denies it, both with the details of the usage.\<close>

definition usage_details :: jsval where
  "usage_details = JObj ObjectClass
     [(''current_usage'', JNum (Integer 5)), (''limit'', JNum (Integer 100)),
      (''plan_name'', JStr ''Basic Plan'')]"

definition allowed_response :: jsval where
  "allowed_response = JObj ObjectClass
     [(''data'', JObj ObjectClass [(''success'', JBool True), (''details'', usage_details)])]"

definition denied_response :: jsval where
  "denied_response = JObj ObjectClass
     [(''data'', JObj ObjectClass [(''success'', JBool False), (''details'', usage_details)])]"

text \<open>A \<open>Headers\<close> object that holds the given headers; every name it is asked for is a
  header name.\<close>

definition Headers :: "(string \<rightharpoonup> string) \<Rightarrow> string \<Rightarrow> string option result" where
  "Headers held name = Inr (held name)"

text \<open>Two requests for the same resource with a query string, one as each adapter sees
  it, and the same two without any header.\<close>

definition node_request :: MwRequest where
  "node_request =
     \<lparr> req_headers = Some [''authorization'' \<mapsto> JStr ''Bearer abc''],
       req_url = JStr ''/api/users?page=2'',
       req_path = JStr ''/api/users'',
       req_method = JStr ''GET'' \<rparr>"

definition fetch_request :: Request where
  "fetch_request =
     \<lparr> request_url = ''http://localhost:3000/api/users?page=2'',
       request_method = ''GET'',
       request_headers = Headers [''authorization'' \<mapsto> ''Bearer abc''] \<rparr>"

definition node_request_no_headers :: MwRequest where
  "node_request_no_headers = node_request \<lparr> req_headers := Some Map.empty \<rparr>"

definition fetch_request_no_headers :: Request where
  "fetch_request_no_headers = fetch_request \<lparr> request_headers := Headers Map.empty \<rparr>"

text \<open>What the platform's URL parser gives as the path of the URL of \<open>fetch_request\<close>;
  the mock knows no other URL.\<close>

definition mock_URL_pathname :: url_parser where
  "mock_URL_pathname url =
     (if url = ''http://localhost:3000/api/users?page=2'' then Inr ''/api/users''
      else Inl (new_TypeError ''Invalid URL''))"

text \<open>Handlers: one whose promise fulfils with a response, one whose promise rejects.\<close>

definition ok_handler :: handler where
  "ok_handler request args =
     Inr (Inr (Response_json (JObj ObjectClass [(''message'', JStr ''Request allowed'')]) 200))"

definition failing_handler :: handler where
  "failing_handler request args = Inr (Inl (new_Error ''handler failed''))"

text \<open>Hooks: those that return, and those that throw whatever they are called with.\<close>

definition quiet_onValidationError :: "MwRequest \<Rightarrow> jsval \<Rightarrow> unit result" where
  "quiet_onValidationError req error = Inr ()"

definition throwing_onValidationError :: "MwRequest \<Rightarrow> jsval \<Rightarrow> unit result" where
  "throwing_onValidationError req error = Inl (new_Error ''hook failed'')"

definition throwing_onRateLimitExceeded :: "MwRequest \<Rightarrow> unit result" where
  "throwing_onRateLimitExceeded req = Inl (new_Error ''hook failed'')"

definition custom_429 :: "Request \<Rightarrow> Response result" where
  "custom_429 request = Inr (Response_json (JObj ObjectClass [(''error'', JStr ''Slow down'')]) 429)"

text \<open>A result that is the throw of a LimitlyError with the given message, status code and
  response body.\<close>

definition raises_LimitlyError :: "jsval result \<Rightarrow> string \<Rightarrow> jsval \<Rightarrow> jsval \<Rightarrow> bool" where
  "raises_LimitlyError r message statusCode response =
     (case r of
        Inr payload \<Rightarrow> False
      | Inl thrown \<Rightarrow>
          instanceof_LimitlyError thrown
          \<and> opt_prop thrown K_message = JStr message
          \<and> opt_prop thrown K_statusCode = statusCode
          \<and> opt_prop thrown K_response = response)"

section \<open>Basic facts\<close>

lemma get_prop_truthy: "truthy (opt_prop v k) \<Longrightarrow> get_prop v k = Inr (opt_prop v k)"
  by (cases v) (simp_all add: get_prop_def)

lemma get_prop_not_nullish: "\<not> nullish v \<Longrightarrow> get_prop v k = Inr (opt_prop v k)"
  by (cases v) (simp_all add: get_prop_def)

lemma LimitlyError_of_raised [simp]:
  "raises_LimitlyError (Inl (LimitlyError_of m s r)) m' s' r' \<longleftrightarrow> m = m' \<and> s = s' \<and> r = r'"
  by (auto simp: raises_LimitlyError_def LimitlyError_of_def)

lemma LimitlyError_of_instance [simp]: "instanceof_LimitlyError (LimitlyError_of m s r)"
  by (simp add: LimitlyError_of_def)

lemma TypeError_not_LimitlyError [simp]: "\<not> instanceof_LimitlyError (new_TypeError msg)"
  by (simp add: new_TypeError_def)

lemma new_LimitlyError_string [simp]:
  "new_LimitlyError (JStr m) s r = Inr (LimitlyError_of m s r)"
  by (simp add: new_LimitlyError_def)

lemma show_int_401: "show_int 401 = ''401''"
  by (simp add: show_int_def digits.simps)

lemma makeRequest_events:
  "fst (makeRequest axios this endpoint options requestOptions) =
     [AxiosCall (hc_baseUrl this @ endpoint) (requestConfig this options requestOptions)]"
  by (simp add: makeRequest_def Let_def)

lemma makeRequest_rejected:
  "axios (hc_baseUrl this @ endpoint) (requestConfig this options requestOptions) = Inl error
   \<Longrightarrow> snd (makeRequest axios this endpoint options requestOptions) = Inl (makeRequest_catch error)"
  by (simp add: makeRequest_def Let_def)

section \<open>The request executor\<close>

text \<open>
  The theorems of this section are about \<open>makeRequest\<close> with any \<open>options\<close>; \<open>get\<close>,
  \<open>post\<close>, \<open>put\<close> and \<open>delete\<close> are \<open>makeRequest\<close> at the options of each verb.
\<close>

text \<open>
  C1. Every call of the executor should give either the payload or a LimitlyError. It does
  not when the server answers an HTTP error with the JSON body \<open>null\<close>: axios rejects
  with an error whose \<open>response.data\<close> is \<open>null\<close>, the \<open>catch\<close> block reads
  \<open>data.error\<close>, and the TypeError of that read leaves \<open>makeRequest\<close> in place of a
  LimitlyError.
\<close>

theorem makeRequest_null_body_TypeError:
  "snd (makeRequest
         (mockRejectedValue (JObj ObjectClass [(''response'', JObj ObjectClass
             [(''status'', JNum (Integer 500)), (''statusText'', JStr ''Internal Server Error''),
              (''data'', JNull)])]))
         test_client ''/validate'' empty_config None)
     = Inl (new_TypeError ''Cannot read properties of null (reading error)'')
   \<and> \<not> instanceof_LimitlyError
         (new_TypeError ''Cannot read properties of null (reading error)'')"
  by (simp add: makeRequest_def Let_def mockRejectedValue_def makeRequest_catch_def get_prop_def)

text \<open>
  C2 does not hold as stated: a body whose \<open>error\<close> field is present and is the empty
  string does not give that field as the message, since \<open>data.error || ...\<close> takes the
  synthesized string for every falsy field.
\<close>

theorem makeRequest_empty_error_field_counterexample:
  "snd (makeRequest
         (mockRejectedValue (JObj ObjectClass [(''response'', JObj ObjectClass
             [(''status'', JNum (Integer 401)), (''statusText'', JStr ''Unauthorized''),
              (''data'', JObj ObjectClass [(''error'', JStr [])])])]))
         test_client ''/validate'' empty_config None)
     = Inl (LimitlyError_of ''HTTP 401: Unauthorized'' (JNum (Integer 401))
              (JObj ObjectClass [(''error'', JStr [])]))
   \<and> map_of [(''error'', JStr [])] ''error'' = Some (JStr [])
   \<and> ''HTTP 401: Unauthorized'' \<noteq> []"
  by (simp add: makeRequest_def Let_def mockRejectedValue_def makeRequest_catch_def
        get_prop_def http_message_def throw_new_def show_int_401)

text \<open>
  C2, amended. Let axios reject with a value that is not a LimitlyError and carries a
  response (\<open>error.response\<close> is truthy) whose body \<open>data\<close> is neither \<open>null\<close> nor
  \<open>undefined\<close>. If the \<open>error\<close> field of the body is truthy and has a string form,
  \<open>makeRequest\<close> throws a LimitlyError with that string form as its message; the string
  form of a string is the string itself. If the field is falsy (absent, or for instance the
  empty string) and the status and the status text of the response have string forms,
  the message is \<open>HTTP {status}: {statusText}\<close>. In both cases \<open>statusCode\<close> is the
  status of the response and \<open>response\<close> is the whole body.
\<close>

theorem makeRequest_http_error_response:
  assumes "axios (hc_baseUrl this @ endpoint) (requestConfig this options requestOptions) = Inl error"
      and "\<not> instanceof_LimitlyError error"
      and "opt_prop error K_response = response" and "truthy response"
      and "opt_prop response K_data = data" and "\<not> nullish data"
  shows "(\<forall>m. truthy (opt_prop data K_error) \<and> to_string (opt_prop data K_error) = Inr m \<longrightarrow>
            raises_LimitlyError (snd (makeRequest axios this endpoint options requestOptions))
              m (opt_prop response K_status) data)
       \<and> (\<forall>m. opt_prop data K_error = JStr m \<and> m \<noteq> [] \<longrightarrow>
            raises_LimitlyError (snd (makeRequest axios this endpoint options requestOptions))
              m (opt_prop response K_status) data)
       \<and> (\<forall>a b. \<not> truthy (opt_prop data K_error)
              \<and> to_string (opt_prop response K_status) = Inr a
              \<and> to_string (opt_prop response K_statusText) = Inr b \<longrightarrow>
            raises_LimitlyError (snd (makeRequest axios this endpoint options requestOptions))
              (''HTTP '' @ a @ '': '' @ b) (opt_prop response K_status) data)"
proof -
  have r: "get_prop error K_response = Inr response"
    using assms(3,4) get_prop_truthy[of error K_response] by simp
  have d: "get_prop data K_error = Inr (opt_prop data K_error)"
    using assms(6) by (rule get_prop_not_nullish)
  have c: "snd (makeRequest axios this endpoint options requestOptions) =
             Inl (makeRequest_catch error)"
    using assms(1) by (rule makeRequest_rejected)
  show ?thesis
    using assms(2,4,5) r d
    by (auto simp: c makeRequest_catch_def Let_def http_message_def new_LimitlyError_def
          throw_new_def)
qed

theorem makeRequest_http_error_response_witness:
  "raises_LimitlyError
     (snd (makeRequest
         (mockRejectedValue (JObj ObjectClass [(''response'', JObj ObjectClass
             [(''status'', JNum (Integer 401)), (''statusText'', JStr ''Unauthorized''),
              (''data'', JObj ObjectClass [(''error'', JStr ''Invalid API key'')])])]))
         test_client ''/validate'' (empty_config \<lparr> ax_method := Some ''POST'' \<rparr>) None))
     ''Invalid API key'' (JNum (Integer 401))
     (JObj ObjectClass [(''error'', JStr ''Invalid API key'')])
   \<and> raises_LimitlyError
     (snd (makeRequest
         (mockRejectedValue (JObj ObjectClass [(''response'', JObj ObjectClass
             [(''status'', JNum (Integer 401)), (''statusText'', JStr ''Unauthorized''),
              (''data'', JObj ObjectClass [])])]))
         test_client ''/validate'' (empty_config \<lparr> ax_method := Some ''POST'' \<rparr>) None))
     ''HTTP 401: Unauthorized'' (JNum (Integer 401)) (JObj ObjectClass [])"
  using makeRequest_http_error_response
    [where axios = "mockRejectedValue (JObj ObjectClass [(''response'', JObj ObjectClass
             [(''status'', JNum (Integer 401)), (''statusText'', JStr ''Unauthorized''),
              (''data'', JObj ObjectClass [(''error'', JStr ''Invalid API key'')])])])"
       and this = test_client and endpoint = "''/validate''"
       and options = "empty_config \<lparr> ax_method := Some ''POST'' \<rparr>" and requestOptions = None
       and error = "JObj ObjectClass [(''response'', JObj ObjectClass
             [(''status'', JNum (Integer 401)), (''statusText'', JStr ''Unauthorized''),
              (''data'', JObj ObjectClass [(''error'', JStr ''Invalid API key'')])])]"
       and response = "JObj ObjectClass
             [(''status'', JNum (Integer 401)), (''statusText'', JStr ''Unauthorized''),
              (''data'', JObj ObjectClass [(''error'', JStr ''Invalid API key'')])]"
       and data = "JObj ObjectClass [(''error'', JStr ''Invalid API key'')]"]
    makeRequest_http_error_response
    [where axios = "mockRejectedValue (JObj ObjectClass [(''response'', JObj ObjectClass
             [(''status'', JNum (Integer 401)), (''statusText'', JStr ''Unauthorized''),
              (''data'', JObj ObjectClass [])])])"
       and this = test_client and endpoint = "''/validate''"
       and options = "empty_config \<lparr> ax_method := Some ''POST'' \<rparr>" and requestOptions = None
       and error = "JObj ObjectClass [(''response'', JObj ObjectClass
             [(''status'', JNum (Integer 401)), (''statusText'', JStr ''Unauthorized''),
              (''data'', JObj ObjectClass [])])]"
       and response = "JObj ObjectClass
             [(''status'', JNum (Integer 401)), (''statusText'', JStr ''Unauthorized''),
              (''data'', JObj ObjectClass [])]"
       and data = "JObj ObjectClass []"]
  by (simp add: mockRejectedValue_def show_int_401)

text \<open>
  C3. A failure that is not a LimitlyError and carries no response should give a
  LimitlyError with status code 0. It does not when the value axios rejects with is
  \<open>undefined\<close>: the \<open>catch\<close> block reads \<open>error.response\<close>, and the TypeError of that
  read leaves \<open>makeRequest\<close> in place of the LimitlyError \<open>Unknown error occurred\<close>.
\<close>

theorem makeRequest_undefined_rejection_TypeError:
  "snd (makeRequest (mockRejectedValue JUndefined) test_client ''/validate'' empty_config None)
     = Inl (new_TypeError ''Cannot read properties of undefined (reading response)'')
   \<and> \<not> raises_LimitlyError
         (snd (makeRequest (mockRejectedValue JUndefined) test_client ''/validate'' empty_config
                 None))
         ''Unknown error occurred'' (JNum (Integer 0)) JUndefined"
  by (simp add: makeRequest_def Let_def mockRejectedValue_def makeRequest_catch_def get_prop_def
        raises_LimitlyError_def)

text \<open>
  C4. When axios rejects with a value that is already a LimitlyError, \<open>makeRequest\<close>
  throws that very value: nothing of it is changed and it is not wrapped in a new error.
\<close>

theorem makeRequest_rethrows_LimitlyError:
  assumes "axios (hc_baseUrl this @ endpoint) (requestConfig this options requestOptions) = Inl error"
      and "instanceof_LimitlyError error"
  shows "snd (makeRequest axios this endpoint options requestOptions) = Inl error"
  using assms by (simp add: makeRequest_rejected makeRequest_catch_def)

theorem makeRequest_rethrows_LimitlyError_witness:
  "instanceof_LimitlyError (LimitlyError_of ''Invalid API key'' (JNum (Integer 401)) JNull)
   \<and> snd (makeRequest
            (mockRejectedValue (LimitlyError_of ''Invalid API key'' (JNum (Integer 401)) JNull))
            test_client ''/validate'' empty_config None)
       = Inl (LimitlyError_of ''Invalid API key'' (JNum (Integer 401)) JNull)"
  using makeRequest_rethrows_LimitlyError
    [where axios = "mockRejectedValue (LimitlyError_of ''Invalid API key'' (JNum (Integer 401)) JNull)"
       and this = test_client and endpoint = "''/validate''" and options = empty_config
       and requestOptions = None
       and error = "LimitlyError_of ''Invalid API key'' (JNum (Integer 401)) JNull"]
  by (simp add: mockRejectedValue_def)

text \<open>
  C5 does not hold as stated: with \<open>timeout: 0\<close> in the options of the call, the call is
  sent with the timeout of the client, 30000, since \<open>requestOptions?.timeout ||
  this.timeout\<close> takes the default for every falsy value.
\<close>

theorem makeRequest_timeout_zero_counterexample:
  "sent_timeouts (fst (makeRequest (mockResolvedValue JNull) test_client ''/validate'' empty_config
      (Some \<lparr> ro_timeout = Some (Integer 0), ro_headers = None, ro_cache = None,
              ro_revalidate = None \<rparr>)))
     = [Some (Integer 30000)]"
  by (simp add: makeRequest_events sent_timeouts_def requestConfig_def or_number_def
        test_client_def HttpClient_new_def)

text \<open>
  C5, amended. Every call of the executor sends one request, and the timeout of that request
  is \<open>requestOptions.timeout\<close> when that field is present and truthy, and the timeout of
  the client otherwise, also when the field is present and is zero or \<open>NaN\<close>. The timeout
  of the client is fixed at construction: \<open>config.timeout\<close> when present and truthy, else
  30000.
\<close>

theorem makeRequest_effective_timeout:
  "sent_timeouts (fst (makeRequest axios this endpoint options requestOptions)) =
     [Some (case requestOptions of
              None \<Rightarrow> hc_timeout this
            | Some ro \<Rightarrow>
                (case ro_timeout ro of
                   None \<Rightarrow> hc_timeout this
                 | Some t \<Rightarrow> if truthy (JNum t) then t else hc_timeout this))]
   \<and> hc_timeout (HttpClient_new config) =
       (case config_timeout config of
          None \<Rightarrow> Integer 30000
        | Some t \<Rightarrow> if truthy (JNum t) then t else Integer 30000)
   \<and> \<not> truthy (JNum (Integer 0)) \<and> \<not> truthy (JNum NaN)"
  by (simp add: makeRequest_events sent_timeouts_def requestConfig_def or_number_def
        HttpClient_new_def split: option.splits)

theorem makeRequest_effective_timeout_witness:
  "sent_timeouts (fst (makeRequest (mockResolvedValue JNull) test_client ''/validate'' empty_config
      (Some \<lparr> ro_timeout = Some (Integer 5000), ro_headers = None, ro_cache = None,
              ro_revalidate = None \<rparr>)))
     = [Some (Integer 5000)]
   \<and> sent_timeouts (fst (makeRequest (mockResolvedValue JNull) test_client ''/validate'' empty_config
      (Some \<lparr> ro_timeout = Some NaN, ro_headers = None, ro_cache = None,
              ro_revalidate = None \<rparr>)))
     = [Some (Integer 30000)]
   \<and> sent_timeouts (fst (makeRequest (mockResolvedValue JNull) test_client ''/validate'' empty_config
      None))
     = [Some (Integer 30000)]
   \<and> hc_timeout (HttpClient_new
        \<lparr> config_apiKey = ''test_api_key'', config_baseUrl = None,
          config_timeout = Some (Integer 10000) \<rparr>) = Integer 10000"
  using makeRequest_effective_timeout
          [where axios = "mockResolvedValue JNull" and this = test_client
             and endpoint = "''/validate''" and options = empty_config
             and requestOptions = "Some \<lparr> ro_timeout = Some (Integer 5000), ro_headers = None,
                                            ro_cache = None, ro_revalidate = None \<rparr>"
             and config = "\<lparr> config_apiKey = ''test_api_key'', config_baseUrl = None,
                              config_timeout = Some (Integer 10000) \<rparr>"]
        makeRequest_effective_timeout
          [where axios = "mockResolvedValue JNull" and this = test_client
             and endpoint = "''/validate''" and options = empty_config
             and requestOptions = "Some \<lparr> ro_timeout = Some NaN, ro_headers = None,
                                            ro_cache = None, ro_revalidate = None \<rparr>"]
        makeRequest_effective_timeout
          [where axios = "mockResolvedValue JNull" and this = test_client
             and endpoint = "''/validate''" and options = empty_config and requestOptions = None]
  by (simp add: test_client_def HttpClient_new_def or_number_def)

section \<open>Facts about the adapters\<close>

lemmas effect_defs = then_do_def lift_def try_catch_def res_status_json_def

lemma replace_first_prefix: "replace_first pat rep (pat @ s) = rep @ s"
proof (cases "pat @ s")
  case Nil
  then show ?thesis by simp
next
  case (Cons c cs)
  have "replace_first pat rep (c # cs) = rep @ drop (length pat) (c # cs)"
    using Cons by (metis prefixI replace_first.simps(2))
  then show ?thesis using Cons by (metis append_eq_conv_conj)
qed

lemma replace_first_absent: "\<not> sublist pat v \<Longrightarrow> replace_first pat rep v = v"
proof (induction v)
  case Nil
  then show ?case by auto
next
  case (Cons c cs)
  have np: "\<not> prefix pat (c # cs)"
    using Cons.prems by (meson prefix_imp_sublist)
  have "\<not> sublist pat cs"
    using Cons.prems by (meson sublist_Cons_right)
  with Cons.IH np show ?case by simp
qed

lemma prefix_short: "prefix p (u @ w) \<Longrightarrow> length p \<le> length u \<Longrightarrow> prefix p u"
  by (auto simp: prefix_append)

text \<open>An occurrence of \<open>pat\<close> that starts before position \<open>length a\<close> of \<open>a @ pat @ b\<close>
  lies inside \<open>a @ butlast pat\<close>; when there is none, the occurrence after \<open>a\<close> is the
  first one, and it is the one replaced.\<close>

lemma replace_first_first:
  "pat \<noteq> [] \<Longrightarrow> \<not> sublist pat (a @ butlast pat) \<Longrightarrow>
   replace_first pat rep (a @ pat @ b) = a @ rep @ b"
proof (induction a)
  case Nil
  then show ?case by (simp add: replace_first_prefix)
next
  case (Cons x xs)
  have np: "\<not> prefix pat (x # xs @ pat @ b)"
  proof
    assume p: "prefix pat (x # xs @ pat @ b)"
    have e: "x # xs @ pat @ b = ((x # xs) @ butlast pat) @ (last pat # b)"
      using Cons.prems(1) by simp
    have "length pat \<le> length ((x # xs) @ butlast pat)" by simp
    with p e have "prefix pat ((x # xs) @ butlast pat)" by (metis prefix_short)
    then show False using Cons.prems(2) by (meson prefix_imp_sublist)
  qed
  have "\<not> sublist pat (xs @ butlast pat)"
    using Cons.prems(2) by (simp add: sublist_Cons_right)
  then have "replace_first pat rep (xs @ pat @ b) = xs @ rep @ b"
    using Cons.IH Cons.prems(1) by simp
  with np show ?case by simp
qed

lemma axios_calls_append: "axios_calls (xs @ ys) = axios_calls xs @ axios_calls ys"
  by (induction xs rule: axios_calls.induct) simp_all

lemma validate_events:
  "fst (validate axios client apiKey endpoint method options) =
     [AxiosCall (hc_baseUrl client @ ''/validate'')
        (requestConfig client
           (empty_config \<lparr> ax_method := Some ''POST'',
              ax_data := JObj ObjectClass
                [(''api_key'', apiKey), (''endpoint'', endpoint), (''method'', method)] \<rparr>)
           options)]"
  by (simp add: validate_def validateRequest_def client_post_def makeRequest_def Let_def)

lemma validate_endpoint:
  "sent_endpoints (fst (validate axios client apiKey endpoint method options)) = [Some endpoint]"
  by (simp add: validate_events sent_endpoints_def requestConfig_def)

lemma validate_no_callbacks:
  "NextCall \<notin> set (fst (validate axios client apiKey endpoint method options))"
  "HandlerCall \<notin> set (fst (validate axios client apiKey endpoint method options))"
  by (simp_all add: validate_events)

lemma validate_resolved:
  "\<not> nullish response \<Longrightarrow>
   snd (validate (mockResolvedValue response) client apiKey endpoint method options) =
     Inr (opt_prop response K_data)"
  by (simp add: validate_def validateRequest_def client_post_def makeRequest_def Let_def
        mockResolvedValue_def get_prop_not_nullish)

lemma validate_rejected:
  "snd (validate (mockRejectedValue error) client apiKey endpoint method options) =
     Inl (makeRequest_catch error)"
  by (simp add: validate_def validateRequest_def client_post_def makeRequest_rejected
        mockRejectedValue_def)

lemma validate_allowed:
  "validate (mockResolvedValue allowed_response) client apiKey endpoint method None =
     (fst (validate (mockResolvedValue allowed_response) client apiKey endpoint method None),
      Inr (JObj ObjectClass [(''success'', JBool True), (''details'', usage_details)]))"
  using validate_resolved[where response = allowed_response and options = None]
  by (simp add: prod_eq_iff allowed_response_def)

lemma validate_denied:
  "validate (mockResolvedValue denied_response) client apiKey endpoint method None =
     (fst (validate (mockResolvedValue denied_response) client apiKey endpoint method None),
      Inr (JObj ObjectClass [(''success'', JBool False), (''details'', usage_details)]))"
  using validate_resolved[where response = denied_response and options = None]
  by (simp add: prod_eq_iff denied_response_def)

lemma node_request_apiKey:
  "middleware_apiKey (middleware_apiKeyHeader options) node_request = Inr (JStr ''abc'')"
  if "options = None \<or> (\<exists>opts. options = Some opts \<and> mo_apiKeyHeader opts = None)"
  using that
  by (auto simp: middleware_apiKey_def middleware_apiKeyHeader_def or_string_def or_else_def
        header_replace_Bearer_def headers_member_def node_request_def)

lemma node_request_no_headers_apiKey:
  "middleware_apiKey (middleware_apiKeyHeader options) node_request_no_headers = Inr JUndefined"
  if "options = None \<or> (\<exists>opts. options = Some opts \<and> mo_apiKeyHeader opts = None)"
  using that
  by (auto simp: middleware_apiKey_def middleware_apiKeyHeader_def or_string_def or_else_def
        header_replace_Bearer_def headers_member_def node_request_no_headers_def node_request_def
        Object_prototype_members_def)

lemma fetch_request_apiKey:
  "withRateLimit_apiKey (withRateLimit_apiKeyHeader options) fetch_request = Inr (JStr ''abc'')"
  if "options = None \<or> (\<exists>opts. options = Some opts \<and> rl_apiKeyHeader opts = None)"
  using that
  by (auto simp: withRateLimit_apiKey_def withRateLimit_apiKeyHeader_def or_string_def
        or_else_def get_replace_Bearer_def Headers_def fetch_request_def)

lemma fetch_request_pathname: "mock_URL_pathname (request_url fetch_request) = Inr ''/api/users''"
  by (simp add: mock_URL_pathname_def fetch_request_def)

section \<open>The two adapters\<close>

text \<open>
  C6 does not hold as stated: a header value that does not start with \<open>Bearer \<close> but
  holds it further on is not used as it is. \<open>replace('Bearer ', '')\<close> removes the first
  occurrence wherever it is.
\<close>

theorem apiKey_inner_Bearer_counterexample:
  "middleware_apiKey ''authorization''
      \<lparr> req_headers = Some [''authorization'' \<mapsto> JStr ''Token Bearer abc''],
        req_url = JStr ''/api/users'', req_path = JStr ''/api/users'', req_method = JStr ''GET'' \<rparr>
     = Inr (JStr ''Token abc'')
   \<and> withRateLimit_apiKey ''authorization''
      \<lparr> request_url = ''http://localhost:3000/api/users'', request_method = ''GET'',
        request_headers = Headers [''authorization'' \<mapsto> ''Token Bearer abc''] \<rparr>
     = Inr (JStr ''Token abc'')
   \<and> \<not> prefix ''Bearer '' ''Token Bearer abc''"
  by (simp add: middleware_apiKey_def withRateLimit_apiKey_def or_else_def
        header_replace_Bearer_def headers_member_def get_replace_Bearer_def Headers_def)

text \<open>
  C6, amended. In both adapters the credential is taken from the configured header when
  that header holds a string of which something is left once the first occurrence of
  \<open>Bearer \<close> is removed: what is left is the credential. When the configured header is
  absent (or holds \<open>undefined\<close> or \<open>null\<close>), or nothing is left of its value, the
  credential is taken from the \<open>authorization\<close> header in the same way: its value with
  the first occurrence of \<open>Bearer \<close> removed, or \<open>undefined\<close> if that header is
  absent too. Removing the first occurrence strips a leading \<open>Bearer \<close>; leaves a value
  in which \<open>Bearer \<close> does not occur as it is; and turns \<open>pre @ ''Bearer '' @ post\<close>,
  when no occurrence starts inside \<open>pre\<close>, into \<open>pre @ post\<close>.
\<close>

theorem apiKey_removes_first_Bearer:
  "(headers_member (req_headers req) h = Data (JStr v) \<and> replace_first ''Bearer '' [] v \<noteq> [] \<longrightarrow>
      middleware_apiKey h req = Inr (JStr (replace_first ''Bearer '' [] v)))
   \<and> (headers_member (req_headers req) h = Data x
        \<and> (nullish x \<or> (x = JStr u \<and> replace_first ''Bearer '' [] u = []))
        \<and> headers_member (req_headers req) ''authorization'' = Data y
        \<and> ((nullish y \<and> credential = JUndefined)
            \<or> (y = JStr w \<and> credential = JStr (replace_first ''Bearer '' [] w))) \<longrightarrow>
      middleware_apiKey h req = Inr credential)
   \<and> (request_headers request h = Inr (Some v) \<and> replace_first ''Bearer '' [] v \<noteq> [] \<longrightarrow>
      withRateLimit_apiKey h request = Inr (JStr (replace_first ''Bearer '' [] v)))
   \<and> (request_headers request h = Inr a
        \<and> (a = None \<or> (a = Some u \<and> replace_first ''Bearer '' [] u = []))
        \<and> request_headers request ''authorization'' = Inr b
        \<and> ((b = None \<and> rl_credential = JUndefined)
            \<or> (b = Some w \<and> rl_credential = JStr (replace_first ''Bearer '' [] w))) \<longrightarrow>
      withRateLimit_apiKey h request = Inr rl_credential)
   \<and> replace_first ''Bearer '' [] (''Bearer '' @ s) = s
   \<and> (\<not> sublist ''Bearer '' v \<longrightarrow> replace_first ''Bearer '' [] v = v)
   \<and> (\<not> sublist ''Bearer '' (pre @ ''Bearer'') \<longrightarrow>
        replace_first ''Bearer '' [] (pre @ ''Bearer '' @ post) = pre @ post)"
  (is "?mw_configured \<and> ?mw_fallback \<and> ?rl_configured \<and> ?rl_fallback
       \<and> ?leading \<and> ?absent \<and> ?inner")
proof -
  have ?mw_configured
    by (simp add: middleware_apiKey_def or_else_def header_replace_Bearer_def)
  moreover have ?mw_fallback
    by (cases x; cases y)
       (auto simp: middleware_apiKey_def or_else_def header_replace_Bearer_def)
  moreover have ?rl_configured
    by (simp add: withRateLimit_apiKey_def or_else_def get_replace_Bearer_def)
  moreover have ?rl_fallback
    by (auto simp: withRateLimit_apiKey_def or_else_def get_replace_Bearer_def)
  moreover have ?leading
    using replace_first_prefix[of "''Bearer ''" "[]" s] by simp
  moreover have ?absent
    by (simp add: replace_first_absent)
  moreover have ?inner
    using replace_first_first[of "''Bearer ''" pre "[]" post] by simp
  ultimately show ?thesis by blast
qed

theorem apiKey_removes_first_Bearer_witness:
  "middleware_apiKey ''x-api-key'' node_request = Inr (JStr ''abc'')
   \<and> middleware_apiKey ''authorization'' node_request = Inr (JStr ''abc'')
   \<and> withRateLimit_apiKey ''x-api-key'' fetch_request = Inr (JStr ''abc'')
   \<and> withRateLimit_apiKey ''x-api-key''
        (fetch_request \<lparr> request_headers := Headers [''x-api-key'' \<mapsto> ''key-1''] \<rparr>)
      = Inr (JStr ''key-1'')
   \<and> replace_first ''Bearer '' [] ''Token Bearer abc'' = ''Token abc''"
  using apiKey_removes_first_Bearer
          [where h = "''x-api-key''" and x = JUndefined and y = "JStr ''Bearer abc''"
             and w = "''Bearer abc''" and credential = "JStr ''abc''" and req = node_request
             and a = None and b = "Some ''Bearer abc''" and rl_credential = "JStr ''abc''"
             and request = fetch_request]
        apiKey_removes_first_Bearer
          [where h = "''authorization''" and v = "''Bearer abc''" and req = node_request]
        apiKey_removes_first_Bearer
          [where h = "''x-api-key''" and v = "''key-1''"
             and request = "fetch_request \<lparr> request_headers := Headers [''x-api-key'' \<mapsto> ''key-1''] \<rparr>"]
        apiKey_removes_first_Bearer[where pre = "''Token ''" and post = "''abc''"]
  by (simp add: sublist_code node_request_def fetch_request_def Headers_def headers_member_def
        Object_prototype_members_def)

text \<open>
  C7 does not hold as stated: in the callback middleware the hook is invoked inside the
  \<open>try\<close> block. When no credential resolves and the validation-error hook throws, the
  \<open>catch\<close> block invokes the hook again; no 401 is written, and here, the hook throwing
  again, no response at all.
\<close>

theorem throwing_hook_no_401_counterexample:
  "middleware_apiKey ''authorization'' node_request_no_headers = Inr JUndefined
   \<and> createMiddleware (mockResolvedValue allowed_response) test_client
        (Some \<lparr> mo_apiKeyHeader = None, mo_onRateLimitExceeded = None,
                mo_onValidationError = Some throwing_onValidationError \<rparr>)
        node_request_no_headers None
      = ([OnValidationError (new_Error ''API Key required''),
          OnValidationError (new_Error ''hook failed'')],
         Inl (new_Error ''hook failed''))"
  by (simp add: createMiddleware_def middleware_try_def effect_defs call_onValidationError_def
        onValidationError_of_def throwing_onValidationError_def middleware_apiKey_def
        middleware_apiKeyHeader_def or_string_def or_else_def header_replace_Bearer_def
        headers_member_def node_request_no_headers_def node_request_def
        Object_prototype_members_def)

text \<open>
  C7, amended. Let no credential resolve (the extraction gives a falsy value). The callback
  middleware invokes the validation-error hook, if there is one, with the error
  \<open>API Key required\<close>. If there is no hook, or the hook returns, it answers 401 with the
  body \<open>{error: "API Key required"}\<close>. If the hook throws, the \<open>catch\<close> block of the
  middleware invokes the hook again with what was thrown and answers 500 with the body
  \<open>{error: "Validation error"}\<close>, unless the hook throws again, which leaves the
  middleware without a response. In every case no call is sent to the remote API and the
  continuation is not invoked. The handler-wrapping adapter returns a 401 response with the
  body \<open>{error: "API Key required"}\<close> and has no effect at all: no call is sent and the
  handler is not invoked.
\<close>

theorem no_credential_401:
  "(middleware_apiKey (middleware_apiKeyHeader options) req = Inr apiKey \<and> \<not> truthy apiKey \<longrightarrow>
      (onValidationError_of options = None \<longrightarrow>
         createMiddleware axios client options req next =
           ([ResStatusJson 401 (JObj ObjectClass [(''error'', JStr ''API Key required'')])], Inr ()))
      \<and> (\<forall>hook. onValidationError_of options = Some hook
              \<and> hook req (new_Error ''API Key required'') = Inr () \<longrightarrow>
         createMiddleware axios client options req next =
           ([OnValidationError (new_Error ''API Key required''),
             ResStatusJson 401 (JObj ObjectClass [(''error'', JStr ''API Key required'')])], Inr ()))
      \<and> (\<forall>hook e. onValidationError_of options = Some hook
              \<and> hook req (new_Error ''API Key required'') = Inl e \<and> hook req e = Inr () \<longrightarrow>
         createMiddleware axios client options req next =
           ([OnValidationError (new_Error ''API Key required''), OnValidationError e,
             ResStatusJson 500 (JObj ObjectClass [(''error'', JStr ''Validation error'')])], Inr ()))
      \<and> (\<forall>hook e e'. onValidationError_of options = Some hook
              \<and> hook req (new_Error ''API Key required'') = Inl e \<and> hook req e = Inl e' \<longrightarrow>
         createMiddleware axios client options req next =
           ([OnValidationError (new_Error ''API Key required''), OnValidationError e], Inl e'))
      \<and> axios_calls (fst (createMiddleware axios client options req next)) = []
      \<and> NextCall \<notin> set (fst (createMiddleware axios client options req next)))
   \<and> (withRateLimit_apiKey (withRateLimit_apiKeyHeader rl_options) request = Inr rl_apiKey
        \<and> \<not> truthy rl_apiKey \<longrightarrow>
      withRateLimit URL_pathname axios client handler rl_options request args =
        ([], Inr (Response_json (JObj ObjectClass [(''error'', JStr ''API Key required'')]) 401)))"
  (is "(?mw_none \<longrightarrow> ?mw_401) \<and> (?rl_none \<longrightarrow> ?rl_401)")
proof (rule conjI; rule impI)
  assume ?mw_none
  then show ?mw_401
    by (auto simp: createMiddleware_def middleware_try_def effect_defs call_onValidationError_def
          Let_def split: option.splits sum.splits)
next
  assume ?rl_none
  then show ?rl_401
    by (simp add: withRateLimit_def withRateLimit_try_def effect_defs)
qed

theorem no_credential_401_witness:
  "createMiddleware (mockResolvedValue allowed_response) test_client None
       node_request_no_headers (Some (Inr ()))
     = ([ResStatusJson 401 (JObj ObjectClass [(''error'', JStr ''API Key required'')])], Inr ())
   \<and> createMiddleware (mockResolvedValue allowed_response) test_client
       (Some \<lparr> mo_apiKeyHeader = None, mo_onRateLimitExceeded = None,
               mo_onValidationError = Some quiet_onValidationError \<rparr>)
       node_request_no_headers (Some (Inr ()))
     = ([OnValidationError (new_Error ''API Key required''),
         ResStatusJson 401 (JObj ObjectClass [(''error'', JStr ''API Key required'')])], Inr ())
   \<and> withRateLimit mock_URL_pathname (mockResolvedValue allowed_response) test_client ok_handler
       None fetch_request_no_headers []
     = ([], Inr (Response_json (JObj ObjectClass [(''error'', JStr ''API Key required'')]) 401))"
proof -
  let ?options = "Some \<lparr> mo_apiKeyHeader = None, mo_onRateLimitExceeded = None,
                         mo_onValidationError = Some quiet_onValidationError \<rparr>"
  have k: "middleware_apiKey (middleware_apiKeyHeader None) node_request_no_headers = Inr JUndefined"
      "middleware_apiKey (middleware_apiKeyHeader ?options) node_request_no_headers = Inr JUndefined"
    by (simp_all add: node_request_no_headers_apiKey)
  have r: "withRateLimit_apiKey (withRateLimit_apiKeyHeader None) fetch_request_no_headers
             = Inr JUndefined"
    by (simp add: withRateLimit_apiKey_def withRateLimit_apiKeyHeader_def or_string_def
          or_else_def get_replace_Bearer_def Headers_def fetch_request_no_headers_def
          fetch_request_def)
  have h: "onValidationError_of None = None"
      "onValidationError_of ?options = Some quiet_onValidationError"
      "quiet_onValidationError node_request_no_headers (new_Error ''API Key required'') = Inr ()"
    by (simp_all add: onValidationError_of_def quiet_onValidationError_def)
  show ?thesis
    using no_credential_401
            [where options = None and req = node_request_no_headers and apiKey = JUndefined
               and axios = "mockResolvedValue allowed_response" and client = test_client
               and ?next = "Some (Inr ())" and rl_options = None
               and request = fetch_request_no_headers and rl_apiKey = JUndefined
               and URL_pathname = mock_URL_pathname and handler = ok_handler and args = "[]"]
          no_credential_401
            [where options = ?options and req = node_request_no_headers and apiKey = JUndefined
               and axios = "mockResolvedValue allowed_response" and client = test_client
               and ?next = "Some (Inr ())"]
          k r h
    by simp
qed

text \<open>
  C8 does not hold as stated: in the callback middleware the rate-limit-exceeded hook is
  invoked inside the \<open>try\<close> block. When the outcome denies the request and the hook
  throws, the \<open>catch\<close> block answers 500 and no 429 is written.
\<close>

theorem throwing_hook_no_429_counterexample:
  "createMiddleware (mockResolvedValue denied_response) test_client
        (Some \<lparr> mo_apiKeyHeader = None,
                mo_onRateLimitExceeded = Some throwing_onRateLimitExceeded,
                mo_onValidationError = None \<rparr>)
        node_request None
      = (fst (validate (mockResolvedValue denied_response) test_client (JStr ''abc'')
                (JStr ''/api/users?page=2'') (JStr ''GET'') None)
         @ [OnRateLimitExceeded,
            ResStatusJson 500 (JObj ObjectClass [(''error'', JStr ''Validation error'')])],
         Inr ())
   \<and> snd (validate (mockResolvedValue denied_response) test_client (JStr ''abc'')
                (JStr ''/api/users?page=2'') (JStr ''GET'') None)
      = Inr (JObj ObjectClass [(''success'', JBool False), (''details'', usage_details)])"
proof -
  let ?options = "Some \<lparr> mo_apiKeyHeader = None,
                         mo_onRateLimitExceeded = Some throwing_onRateLimitExceeded,
                         mo_onValidationError = None \<rparr>"
  have k: "middleware_apiKey (middleware_apiKeyHeader ?options) node_request = Inr (JStr ''abc'')"
    by (simp add: node_request_apiKey)
  have m: "middleware_endpoint node_request = JStr ''/api/users?page=2''"
      "req_method node_request = JStr ''GET''"
    by (simp_all add: middleware_endpoint_def node_request_def)
  have v: "snd (validate (mockResolvedValue denied_response) test_client (JStr ''abc'')
                  (JStr ''/api/users?page=2'') (JStr ''GET'') None)
             = Inr (JObj ObjectClass [(''success'', JBool False), (''details'', usage_details)])"
    using validate_denied[of test_client "JStr ''abc''" "JStr ''/api/users?page=2''" "JStr ''GET''"]
    by (metis snd_conv)
  show ?thesis
    using k m v
    by (simp add: createMiddleware_def middleware_try_def effect_defs
          call_onRateLimitExceeded_def call_onValidationError_def onRateLimitExceeded_of_def
          onValidationError_of_def throwing_onRateLimitExceeded_def get_prop_def)
qed

text \<open>
  C8, amended. Let a credential resolve and the validate call give the outcome \<open>result\<close>, a
  value other than \<open>null\<close> and \<open>undefined\<close> whose \<open>success\<close> is falsy. The callback middleware then invokes the
  rate-limit-exceeded hook, if there is one. If there is no hook, or the hook returns, it
  answers 429 with the body \<open>{error: "Rate limit exceeded", details: result.details}\<close>. If
  the hook throws, the \<open>catch\<close> block of the middleware invokes the validation-error
  hook, if there is one, with what was thrown and answers 500 with the body
  \<open>{error: "Validation error"}\<close>, unless that hook throws too, which leaves the
  middleware without a response. In every case the continuation is not invoked. The
  handler-wrapping adapter returns what the override producer returns if one was supplied,
  and else a 429 response with the body \<open>{error: "Rate limit exceeded", details:
  result.details}\<close>; the handler is not invoked.
\<close>

theorem rate_limit_exceeded_429:
  "(middleware_apiKey (middleware_apiKeyHeader options) req = Inr apiKey \<and> truthy apiKey
      \<and> validate axios client apiKey (middleware_endpoint req) (req_method req) None
          = (calls, Inr result)
      \<and> \<not> nullish result \<and> \<not> truthy (opt_prop result K_success) \<longrightarrow>
      (onRateLimitExceeded_of options = None \<longrightarrow>
         createMiddleware axios client options req next =
           (calls @ [ResStatusJson 429 (JObj ObjectClass
              [(''error'', JStr ''Rate limit exceeded''),
               (''details'', opt_prop result K_details)])], Inr ()))
      \<and> (\<forall>hook. onRateLimitExceeded_of options = Some hook \<and> hook req = Inr () \<longrightarrow>
         createMiddleware axios client options req next =
           (calls @ [OnRateLimitExceeded, ResStatusJson 429 (JObj ObjectClass
              [(''error'', JStr ''Rate limit exceeded''),
               (''details'', opt_prop result K_details)])], Inr ()))
      \<and> (\<forall>hook e. onRateLimitExceeded_of options = Some hook \<and> hook req = Inl e
              \<and> onValidationError_of options = None \<longrightarrow>
         createMiddleware axios client options req next =
           (calls @ [OnRateLimitExceeded,
              ResStatusJson 500 (JObj ObjectClass [(''error'', JStr ''Validation error'')])],
            Inr ()))
      \<and> (\<forall>hook e on_error. onRateLimitExceeded_of options = Some hook \<and> hook req = Inl e
              \<and> onValidationError_of options = Some on_error \<and> on_error req e = Inr () \<longrightarrow>
         createMiddleware axios client options req next =
           (calls @ [OnRateLimitExceeded, OnValidationError e,
              ResStatusJson 500 (JObj ObjectClass [(''error'', JStr ''Validation error'')])],
            Inr ()))
      \<and> (\<forall>hook e on_error e'. onRateLimitExceeded_of options = Some hook \<and> hook req = Inl e
              \<and> onValidationError_of options = Some on_error \<and> on_error req e = Inl e' \<longrightarrow>
         createMiddleware axios client options req next =
           (calls @ [OnRateLimitExceeded, OnValidationError e], Inl e'))
      \<and> NextCall \<notin> set (fst (createMiddleware axios client options req next)))
   \<and> (withRateLimit_apiKey (withRateLimit_apiKeyHeader rl_options) request = Inr rl_apiKey
        \<and> truthy rl_apiKey
        \<and> URL_pathname (request_url request) = Inr pathname
        \<and> validate rl_axios client rl_apiKey (JStr pathname) (JStr (request_method request)) None
            = (rl_calls, Inr rl_result)
        \<and> \<not> nullish rl_result \<and> \<not> truthy (opt_prop rl_result K_success) \<longrightarrow>
      (producer_of rl_options = None \<longrightarrow>
         withRateLimit URL_pathname rl_axios client handler rl_options request args =
           (rl_calls, Inr (Response_json (JObj ObjectClass
              [(''error'', JStr ''Rate limit exceeded''),
               (''details'', opt_prop rl_result K_details)]) 429)))
      \<and> (\<forall>producer response. producer_of rl_options = Some producer
              \<and> producer request = Inr response \<longrightarrow>
         withRateLimit URL_pathname rl_axios client handler rl_options request args =
           (rl_calls @ [OnRateLimitExceeded], Inr response))
      \<and> HandlerCall \<notin> set (fst (withRateLimit URL_pathname rl_axios client handler rl_options
                                   request args)))"
  (is "(?mw_denied \<longrightarrow> ?mw_429) \<and> (?rl_denied \<longrightarrow> ?rl_429)")
proof (rule conjI; rule impI)
  assume a: ?mw_denied
  then have "NextCall \<notin> set calls"
    using validate_no_callbacks(1)[of axios client apiKey "middleware_endpoint req"
        "req_method req" None]
    by simp
  moreover have "get_prop result K_success = Inr (opt_prop result K_success)"
    using a by (simp add: get_prop_not_nullish)
  ultimately show ?mw_429
    using a
    by (auto simp: createMiddleware_def middleware_try_def effect_defs call_onRateLimitExceeded_def
          call_onValidationError_def Let_def split: option.splits sum.splits)
next
  assume a: ?rl_denied
  then have "HandlerCall \<notin> set rl_calls"
    using validate_no_callbacks(2)[of rl_axios client rl_apiKey "JStr pathname"
        "JStr (request_method request)" None]
    by simp
  moreover have "get_prop rl_result K_success = Inr (opt_prop rl_result K_success)"
    using a by (simp add: get_prop_not_nullish)
  ultimately show ?rl_429
    using a
    by (auto simp: withRateLimit_def withRateLimit_try_def effect_defs Let_def
          split: option.splits sum.splits)
qed

theorem rate_limit_exceeded_429_witness:
  "createMiddleware (mockResolvedValue denied_response) test_client None node_request (Some (Inr ()))
     = (fst (validate (mockResolvedValue denied_response) test_client (JStr ''abc'')
               (JStr ''/api/users?page=2'') (JStr ''GET'') None)
        @ [ResStatusJson 429 (JObj ObjectClass
             [(''error'', JStr ''Rate limit exceeded''), (''details'', usage_details)])],
        Inr ())
   \<and> withRateLimit mock_URL_pathname (mockResolvedValue denied_response) test_client ok_handler
        None fetch_request []
     = (fst (validate (mockResolvedValue denied_response) test_client (JStr ''abc'')
               (JStr ''/api/users'') (JStr ''GET'') None),
        Inr (Response_json (JObj ObjectClass
             [(''error'', JStr ''Rate limit exceeded''), (''details'', usage_details)]) 429))
   \<and> withRateLimit mock_URL_pathname (mockResolvedValue denied_response) test_client ok_handler
        (Some \<lparr> rl_apiKeyHeader = None, rl_onRateLimitExceeded = Some custom_429 \<rparr>)
        fetch_request []
     = (fst (validate (mockResolvedValue denied_response) test_client (JStr ''abc'')
               (JStr ''/api/users'') (JStr ''GET'') None) @ [OnRateLimitExceeded],
        Inr (Response_json (JObj ObjectClass [(''error'', JStr ''Slow down'')]) 429))"
proof -
  let ?axios = "mockResolvedValue denied_response"
  let ?result = "JObj ObjectClass [(''success'', JBool False), (''details'', usage_details)]"
  let ?rl_options = "Some \<lparr> rl_apiKeyHeader = None, rl_onRateLimitExceeded = Some custom_429 \<rparr>"
  have m: "middleware_endpoint node_request = JStr ''/api/users?page=2''"
      "req_method node_request = JStr ''GET''" "request_method fetch_request = ''GET''"
    by (simp_all add: middleware_endpoint_def node_request_def fetch_request_def)
  have k: "middleware_apiKey (middleware_apiKeyHeader None) node_request = Inr (JStr ''abc'')"
      "withRateLimit_apiKey (withRateLimit_apiKeyHeader None) fetch_request = Inr (JStr ''abc'')"
      "withRateLimit_apiKey (withRateLimit_apiKeyHeader ?rl_options) fetch_request
         = Inr (JStr ''abc'')"
    by (simp_all add: node_request_apiKey fetch_request_apiKey)
  have p: "producer_of None = None" "producer_of ?rl_options = Some custom_429"
      "onRateLimitExceeded_of None = None"
      "custom_429 fetch_request
         = Inr (Response_json (JObj ObjectClass [(''error'', JStr ''Slow down'')]) 429)"
    by (simp_all add: producer_of_def onRateLimitExceeded_of_def custom_429_def)
  show ?thesis
    using rate_limit_exceeded_429
            [where options = None and req = node_request and apiKey = "JStr ''abc''"
               and axios = ?axios and client = test_client and ?next = "Some (Inr ())"
               and calls = "fst (validate ?axios test_client (JStr ''abc'')
                                   (JStr ''/api/users?page=2'') (JStr ''GET'') None)"
               and result = ?result
               and rl_options = None and request = fetch_request and rl_apiKey = "JStr ''abc''"
               and URL_pathname = mock_URL_pathname
               and pathname = "''/api/users''" and rl_axios = ?axios
               and rl_calls = "fst (validate ?axios test_client (JStr ''abc'')
                                   (JStr ''/api/users'') (JStr ''GET'') None)"
               and rl_result = ?result and handler = ok_handler and args = "[]"]
          rate_limit_exceeded_429
            [where rl_options = ?rl_options and request = fetch_request and rl_apiKey = "JStr ''abc''"
               and URL_pathname = mock_URL_pathname
               and pathname = "''/api/users''" and rl_axios = ?axios and client = test_client
               and rl_calls = "fst (validate ?axios test_client (JStr ''abc'')
                                   (JStr ''/api/users'') (JStr ''GET'') None)"
               and rl_result = ?result and handler = ok_handler and args = "[]"]
          validate_denied fetch_request_pathname m k p
    by simp
qed

text \<open>
  C9. Let a credential resolve in the handler-wrapping adapter. An error raised before the
  handler is reached, by the parsing of the URL, by the validate call, or by reading
  \<open>success\<close> of its outcome, is logged and gives a returned 500 response with the body
  \<open>{error: "Validation error"}\<close>. When the outcome allows the request and the promise the
  handler returns rejects with \<open>e\<close>, the promise of the adapter rejects with \<open>e\<close>: the
  rejection is not caught, nothing is logged and no response is made.
\<close>

theorem withRateLimit_errors:
  assumes "withRateLimit_apiKey (withRateLimit_apiKeyHeader options) request = Inr apiKey"
      and "truthy apiKey"
  shows "(\<forall>e. URL_pathname (request_url request) = Inl e \<longrightarrow>
            withRateLimit URL_pathname axios client handler options request args =
              ([ConsoleError e],
               Inr (Response_json (JObj ObjectClass [(''error'', JStr ''Validation error'')]) 500)))
       \<and> (\<forall>pathname calls e. URL_pathname (request_url request) = Inr pathname
              \<and> validate axios client apiKey (JStr pathname) (JStr (request_method request)) None
                  = (calls, Inl e) \<longrightarrow>
            withRateLimit URL_pathname axios client handler options request args =
              (calls @ [ConsoleError e],
               Inr (Response_json (JObj ObjectClass [(''error'', JStr ''Validation error'')]) 500)))
       \<and> (\<forall>pathname calls result e. URL_pathname (request_url request) = Inr pathname
              \<and> validate axios client apiKey (JStr pathname) (JStr (request_method request)) None
                  = (calls, Inr result)
              \<and> get_prop result K_success = Inl e \<longrightarrow>
            withRateLimit URL_pathname axios client handler options request args =
              (calls @ [ConsoleError e],
               Inr (Response_json (JObj ObjectClass [(''error'', JStr ''Validation error'')]) 500)))
       \<and> (\<forall>pathname calls result e. URL_pathname (request_url request) = Inr pathname
              \<and> validate axios client apiKey (JStr pathname) (JStr (request_method request)) None
                  = (calls, Inr result)
              \<and> \<not> nullish result \<and> truthy (opt_prop result K_success)
              \<and> handler request args = Inr (Inl e) \<longrightarrow>
            withRateLimit URL_pathname axios client handler options request args =
              (calls @ [HandlerCall], Inl e))"
  using assms
  by (auto simp: withRateLimit_def withRateLimit_try_def effect_defs Let_def get_prop_not_nullish)

theorem withRateLimit_errors_witness:
  "snd (withRateLimit mock_URL_pathname
          (mockRejectedValue (new_Error ''timeout of 30000ms exceeded'')) test_client
          ok_handler None fetch_request [])
     = Inr (Response_json (JObj ObjectClass [(''error'', JStr ''Validation error'')]) 500)
   \<and> withRateLimit mock_URL_pathname (mockResolvedValue allowed_response) test_client
          failing_handler None fetch_request []
     = (fst (validate (mockResolvedValue allowed_response) test_client (JStr ''abc'')
               (JStr ''/api/users'') (JStr ''GET'') None) @ [HandlerCall],
        Inl (new_Error ''handler failed''))"
proof -
  let ?rejects = "mockRejectedValue (new_Error ''timeout of 30000ms exceeded'')"
  let ?resolves = "mockResolvedValue allowed_response"
  let ?result = "JObj ObjectClass [(''success'', JBool True), (''details'', usage_details)]"
  have r: "validate ?rejects test_client k e m None =
             (fst (validate ?rejects test_client k e m None),
              Inl (makeRequest_catch (new_Error ''timeout of 30000ms exceeded'')))" for k e m
    by (simp add: prod_eq_iff validate_rejected)
  have m: "request_method fetch_request = ''GET''"
    by (simp add: fetch_request_def)
  have h: "failing_handler fetch_request [] = Inr (Inl (new_Error ''handler failed''))"
    by (simp add: failing_handler_def)
  have k: "withRateLimit_apiKey (withRateLimit_apiKeyHeader None) fetch_request = Inr (JStr ''abc'')"
    by (simp add: fetch_request_apiKey)
  show ?thesis
    using withRateLimit_errors
            [where options = None and request = fetch_request and apiKey = "JStr ''abc''"
               and URL_pathname = mock_URL_pathname
               and axios = ?rejects and client = test_client and handler = ok_handler
               and args = "[]", THEN conjunct2, THEN conjunct1, rule_format,
             where pathname = "''/api/users''"
               and calls = "fst (validate ?rejects test_client (JStr ''abc'')
                                   (JStr ''/api/users'') (JStr ''GET'') None)"
               and e = "makeRequest_catch (new_Error ''timeout of 30000ms exceeded'')"]
          withRateLimit_errors
            [where options = None and request = fetch_request and apiKey = "JStr ''abc''"
               and URL_pathname = mock_URL_pathname
               and axios = ?resolves and client = test_client and handler = failing_handler
               and args = "[]", THEN conjunct2, THEN conjunct2, THEN conjunct2, rule_format,
             where pathname = "''/api/users''" and result = ?result
               and calls = "fst (validate ?resolves test_client (JStr ''abc'')
                                   (JStr ''/api/users'') (JStr ''GET'') None)"
               and e = "new_Error ''handler failed''"]
          r validate_allowed m h k fetch_request_pathname
    by simp
qed

text \<open>
  C10 does not hold as stated: the callback middleware falls back to \<open>req.path\<close> not only
  when \<open>req.url\<close> is absent. With \<open>req.url\<close> present and the empty string, what it
  sends is \<open>req.path\<close>.
\<close>

theorem empty_url_falls_back_counterexample:
  "req_url (node_request \<lparr> req_url := JStr [] \<rparr>) = JStr []
   \<and> sent_endpoints (fst (createMiddleware (mockResolvedValue allowed_response) test_client None
        (node_request \<lparr> req_url := JStr [] \<rparr>) None)) = [Some (JStr ''/api/users'')]"
proof -
  let ?req = "node_request \<lparr> req_url := JStr [] \<rparr>"
  have k: "middleware_apiKey (middleware_apiKeyHeader None) ?req = Inr (JStr ''abc'')"
    by (simp add: middleware_apiKey_def middleware_apiKeyHeader_def or_string_def or_else_def
          header_replace_Bearer_def headers_member_def node_request_def)
  have m: "middleware_endpoint ?req = JStr ''/api/users''" "req_method ?req = JStr ''GET''"
    by (simp_all add: middleware_endpoint_def node_request_def)
  have v: "snd (validate (mockResolvedValue allowed_response) test_client (JStr ''abc'')
                  (JStr ''/api/users'') (JStr ''GET'') None)
             = Inr (JObj ObjectClass [(''success'', JBool True), (''details'', usage_details)])"
    using validate_allowed[of test_client "JStr ''abc''" "JStr ''/api/users''" "JStr ''GET''"]
    by (metis snd_conv)
  have e: "axios_calls (fst (validate (mockResolvedValue allowed_response) test_client
                  (JStr ''abc'') (JStr ''/api/users'') (JStr ''GET'') None))
             = [(hc_baseUrl test_client @ ''/validate'',
                 requestConfig test_client
                   (empty_config \<lparr> ax_method := Some ''POST'',
                      ax_data := JObj ObjectClass
                        [(''api_key'', JStr ''abc''), (''endpoint'', JStr ''/api/users''),
                         (''method'', JStr ''GET'')] \<rparr>) None)]"
    by (simp add: validate_events)
  show ?thesis
    using k m v e
    by (simp add: createMiddleware_def middleware_try_def effect_defs get_prop_def
          sent_endpoints_def requestConfig_def node_request_def)
qed

text \<open>
  C10, amended. With a credential resolved, each adapter sends exactly one call, to the
  validate endpoint. The callback middleware sends \<open>req.url\<close> as it is, query string
  included, when \<open>req.url\<close> is truthy, and \<open>req.path\<close> whenever \<open>req.url\<close> is falsy,
  be it absent or the empty string. The handler-wrapping adapter sends the path that the
  platform's URL parser gives for \<open>request.url\<close>, whatever that parser is. As the parser
  gives \<open>/api/users\<close> for \<open>http://localhost:3000/api/users?page=2\<close>, for that request
  the wrapped handler sends \<open>/api/users\<close> and the middleware sends
  \<open>/api/users?page=2\<close>.
\<close>

theorem adapters_send_different_endpoints:
  "(middleware_apiKey (middleware_apiKeyHeader options) req = Inr apiKey \<and> truthy apiKey \<longrightarrow>
      sent_endpoints (fst (createMiddleware axios client options req next)) =
        [Some (if truthy (req_url req) then req_url req else req_path req)])
   \<and> (withRateLimit_apiKey (withRateLimit_apiKeyHeader rl_options) request = Inr rl_apiKey
        \<and> truthy rl_apiKey \<and> URL_pathname (request_url request) = Inr pathname \<longrightarrow>
      sent_endpoints (fst (withRateLimit URL_pathname rl_axios client handler rl_options request
                             args)) =
        [Some (JStr pathname)])
   \<and> (URL_pathname ''http://localhost:3000/api/users?page=2'' = Inr ''/api/users'' \<longrightarrow>
      sent_endpoints (fst (createMiddleware axios client None node_request next)) =
        [Some (JStr ''/api/users?page=2'')]
      \<and> sent_endpoints (fst (withRateLimit URL_pathname rl_axios client handler None fetch_request
                               args)) =
        [Some (JStr ''/api/users'')])"
  (is "(?mw_key \<longrightarrow> ?mw_sent) \<and> (?rl_key \<longrightarrow> ?rl_sent) \<and> (?parsed \<longrightarrow> ?example)")
proof -
  have mw: "sent_endpoints (fst (createMiddleware ax cl opts r nx)) = [Some (middleware_endpoint r)]"
    if "middleware_apiKey (middleware_apiKeyHeader opts) r = Inr k" and "truthy k"
    for ax cl opts r nx k
  proof -
    obtain calls res where v:
      "validate ax cl k (middleware_endpoint r) (req_method r) None = (calls, res)"
      by (cases "validate ax cl k (middleware_endpoint r) (req_method r) None")
    have "sent_endpoints calls = [Some (middleware_endpoint r)]"
      using validate_endpoint[of ax cl k "middleware_endpoint r" "req_method r" None] v by simp
    then have "map (\<lambda>call. own_property (ax_data (snd call)) ''endpoint'') (axios_calls calls)
                 = [Some (middleware_endpoint r)]"
      by (simp add: sent_endpoints_def)
    then show ?thesis
      using that v
      by (auto simp: createMiddleware_def middleware_try_def effect_defs
            call_onRateLimitExceeded_def call_onValidationError_def sent_endpoints_def
            axios_calls_append Let_def split: option.splits sum.splits)
  qed
  have rl: "sent_endpoints (fst (withRateLimit parse ax cl h opts r as)) = [Some (JStr p)]"
    if "withRateLimit_apiKey (withRateLimit_apiKeyHeader opts) r = Inr k" and "truthy k"
      and "parse (request_url r) = Inr p"
    for parse ax cl h opts r as k p
  proof -
    obtain calls res where v:
      "validate ax cl k (JStr p) (JStr (request_method r)) None = (calls, res)"
      by (cases "validate ax cl k (JStr p) (JStr (request_method r)) None")
    have "sent_endpoints calls = [Some (JStr p)]"
      using validate_endpoint[of ax cl k "JStr p" "JStr (request_method r)" None] v by simp
    then have "map (\<lambda>call. own_property (ax_data (snd call)) ''endpoint'') (axios_calls calls)
                 = [Some (JStr p)]"
      by (simp add: sent_endpoints_def)
    then show ?thesis
      using that v
      by (auto simp: withRateLimit_def withRateLimit_try_def effect_defs Let_def
            sent_endpoints_def axios_calls_append split: option.splits sum.splits)
  qed
  have "?mw_key \<longrightarrow> ?mw_sent"
    using mw[of options req apiKey axios client "next"] by (simp add: middleware_endpoint_def)
  moreover have "?rl_key \<longrightarrow> ?rl_sent"
    using rl[of rl_options request rl_apiKey URL_pathname pathname rl_axios client handler args]
    by simp
  moreover have "?parsed \<longrightarrow> ?example"
  proof
    assume p: ?parsed
    have k: "middleware_apiKey (middleware_apiKeyHeader None) node_request = Inr (JStr ''abc'')"
        "withRateLimit_apiKey (withRateLimit_apiKeyHeader None) fetch_request = Inr (JStr ''abc'')"
      by (simp_all add: node_request_apiKey fetch_request_apiKey)
    have u: "URL_pathname (request_url fetch_request) = Inr ''/api/users''"
      using p by (simp add: fetch_request_def)
    show ?example
      using mw[OF k(1), of axios client "next"]
        rl[of None fetch_request "JStr ''abc''" URL_pathname "''/api/users''" rl_axios client
             handler args] k(2) u
      by (simp add: middleware_endpoint_def node_request_def)
  qed
  ultimately show ?thesis by blast
qed

theorem adapters_send_different_endpoints_witness:
  "sent_endpoints (fst (createMiddleware (mockResolvedValue denied_response) test_client None
        node_request None)) = [Some (JStr ''/api/users?page=2'')]
   \<and> sent_endpoints (fst (createMiddleware (mockResolvedValue denied_response) test_client None
        (node_request \<lparr> req_url := JUndefined \<rparr>) None)) = [Some (JStr ''/api/users'')]
   \<and> sent_endpoints (fst (withRateLimit mock_URL_pathname (mockResolvedValue denied_response)
        test_client ok_handler None fetch_request [])) = [Some (JStr ''/api/users'')]"
proof -
  have k: "middleware_apiKey (middleware_apiKeyHeader None) (node_request \<lparr> req_url := JUndefined \<rparr>)
             = Inr (JStr ''abc'')"
      "withRateLimit_apiKey (withRateLimit_apiKeyHeader None) fetch_request = Inr (JStr ''abc'')"
    by (simp_all add: fetch_request_apiKey middleware_apiKey_def middleware_apiKeyHeader_def
          or_string_def or_else_def header_replace_Bearer_def headers_member_def node_request_def)
  show ?thesis
    using adapters_send_different_endpoints
            [where options = None and req = "node_request \<lparr> req_url := JUndefined \<rparr>"
               and apiKey = "JStr ''abc''" and axios = "mockResolvedValue denied_response"
               and client = test_client and ?next = None
               and rl_options = None and request = fetch_request and rl_apiKey = "JStr ''abc''"
               and URL_pathname = mock_URL_pathname
               and pathname = "''/api/users''" and rl_axios = "mockResolvedValue denied_response"
               and handler = ok_handler and args = "[]"]
          k fetch_request_pathname
    by (simp add: node_request_def mock_URL_pathname_def)
qed

end
